theory Spec2Isabelle
  imports Complex_Main
begin

section \<open>Documents, identifiers and responses\<close>

text \<open>
  The server keeps its state in document collections and every route handler is a
  function from the collections and the request to a response and the new collections.
  An ObjectId is a natural number. A JavaScript Number is a real: the handlers only add,
  subtract and compare, and rounding is not modelled. A Date is its number of
  milliseconds. The client document carries the two timestamps that the object-document
  mapper maintains; on the other documents they are left out, as are the version keys.

  A string of a request body that the handlers trim or store is a list of UTF-16 code
  units, as a JavaScript string is; \<open>units\<close> writes one from ASCII text. Messages, keys
  and the other strings are ASCII text.
\<close>

type_synonym objid = nat
type_synonym date = int
type_synonym number = real
type_synonym jstring = "nat list"

definition units :: "string \<Rightarrow> jstring" where
  "units s = map of_char s"

text \<open>
  The \<^verbatim>\<open>:id\<close> path parameter is a string; it either casts to an ObjectId or it does
  not, and then every query by id throws a CastError.
\<close>

datatype path_id = Malformed | Oid objid

datatype 'b response = Response (statusCode: nat) (json: 'b)

text \<open>
  The bodies that the invoice and task routes write with \<^verbatim>\<open>res.json\<close>: an object
  with a message (the \<^verbatim>\<open>error\<close> text that some of them add is left out), a document, an
  array of documents, or null.
\<close>

datatype 'd body =
    Message string
  | Doc 'd
  | Docs "'d list"
  | Null

text \<open>
  The envelopes of utils/apiResponse.js. \<^verbatim>\<open>successResponse\<close> writes
  \<^verbatim>\<open>{success: true, message, data}\<close>, \<^verbatim>\<open>errorResponse\<close> writes
  \<^verbatim>\<open>{success: false, message}\<close> with the status given, and
  \<^verbatim>\<open>validationErrorResponse\<close> writes status 422 and
  \<^verbatim>\<open>{success: false, message, errors}\<close>, the message being Validation Error unless
  given.
\<close>

datatype 'd envelope =
    Success string "'d option"
  | Failure string
  | ValidationFailure string "(string \<times> string) list"

definition successResponse :: "'d option \<Rightarrow> string \<Rightarrow> nat \<Rightarrow> 'd envelope response" where
  "successResponse data msg st = Response st (Success msg data)"

definition errorResponse :: "string \<Rightarrow> nat \<Rightarrow> 'd envelope response" where
  "errorResponse msg st = Response st (Failure msg)"

definition validationErrorResponse :: "(string \<times> string) list \<Rightarrow> 'd envelope response" where
  "validationErrorResponse errors = Response 422 (ValidationFailure ''Validation Error'' errors)"

text \<open>\<^verbatim>\<open>Model.findById\<close>: the first document of the collection with that id.\<close>

definition findById :: "('d \<Rightarrow> objid) \<Rightarrow> 'd list \<Rightarrow> objid \<Rightarrow> 'd option" where
  "findById key docs i = find (\<lambda>d. key d = i) docs"

text \<open>
  \<^verbatim>\<open>Model.findByIdAndUpdate(id, update, {new: true})\<close> changes the first document with
  that id and returns it as changed, or returns null. \<open>updateById\<close> is the collection
  afterwards, \<open>updatedDoc\<close> the returned document.
\<close>

fun updateById :: "('d \<Rightarrow> objid) \<Rightarrow> objid \<Rightarrow> ('d \<Rightarrow> 'd) \<Rightarrow> 'd list \<Rightarrow> 'd list" where
  "updateById key i f [] = []"
| "updateById key i f (d # ds) =
     (if key d = i then f d # ds else d # updateById key i f ds)"

definition updatedDoc :: "('d \<Rightarrow> objid) \<Rightarrow> objid \<Rightarrow> ('d \<Rightarrow> 'd) \<Rightarrow> 'd list \<Rightarrow> 'd option" where
  "updatedDoc key i f docs = map_option f (findById key docs i)"

text \<open>\<^verbatim>\<open>Model.findByIdAndDelete\<close>: removes the first document with that id.\<close>

fun deleteById :: "('d \<Rightarrow> objid) \<Rightarrow> objid \<Rightarrow> 'd list \<Rightarrow> 'd list" where
  "deleteById key i [] = []"
| "deleteById key i (d # ds) = (if key d = i then ds else d # deleteById key i ds)"

text \<open>\<^verbatim>\<open>Model.countDocuments(filter)\<close>.\<close>

definition countDocuments :: "('d \<Rightarrow> bool) \<Rightarrow> 'd list \<Rightarrow> nat" where
  "countDocuments flt docs = length (filter flt docs)"

subsection \<open>models/Invoice.js\<close>

record item =
  service :: "objid option"
  description :: string
  quantity :: number
  rate :: number
  amount :: number

record invoice =
  inv_id :: objid
  invoiceNo :: string
  clientId :: objid
  clientName :: string
  issueDate :: date
  dueDate :: date
  items :: "item list"
  subtotal :: number
  taxRate :: number
  taxAmount :: number
  inv_total :: number
  paid :: number
  status :: string
  clientStatus :: string
  inv_notes :: "string option"
  createdBy :: "objid option"

text \<open>
  The virtual \<^verbatim>\<open>balanceDue\<close> is computed by a getter and is not stored. The schema sets
  \<^verbatim>\<open>toJSON: {virtuals: true}\<close>, so the document that \<^verbatim>\<open>res.json\<close> writes is the stored
  document extended with the getter's value.
\<close>

record invoice_json = invoice +
  balanceDue :: number

definition balanceDue_getter :: "invoice \<Rightarrow> number" where
  "balanceDue_getter this = inv_total this - paid this"

definition toJSON :: "invoice \<Rightarrow> invoice_json" where
  "toJSON this = invoice.extend this (invoice_json.fields (balanceDue_getter this))"

subsection \<open>models/Task.js\<close>

record related =
  rel_name :: "string option"
  caseNumber :: "string option"

record task =
  task_id :: objid
  title :: string
  task_description :: string
  task_dueDate :: date
  startDate :: date
  task_status :: string
  priority :: string
  completed :: bool
  userId :: objid
  relatedTo :: related

subsection \<open>models/Case.js and models/Appointment.js\<close>

record timeline_entry =
  tl_date :: date
  tl_description :: string
  addedBy :: objid

record case_doc =
  case_id :: objid
  clientNo :: jstring
  case_clientName :: jstring
  caseType :: jstring
  court :: jstring
  courtNo :: "string option"
  magistrate :: "string option"
  petitioner :: jstring
  respondent :: jstring
  nextDate :: "date option"
  case_status :: string
  isImportant :: bool
  isArchived :: bool
  assignedTo :: objid
  case_createdBy :: objid
  timeline :: "timeline_entry list"

record appointment =
  appt_id :: objid
  appt_title :: string
  appt_clientId :: objid
  dateTime :: date
  duration :: number
  location :: string
  appt_description :: string
  appt_status :: string
  appt_createdBy :: objid

subsection \<open>Client and User documents\<close>

text \<open>
  Modelled from the spec: the schema files models/Client.js and models/User.js are not
  among the sources. The fields are those of the data model (section 3 of the
  specification) and those the route handlers read and write: a client has name, email,
  mobile, address, company, notes, the boolean status, the list of related case
  references, its creator and the creation and update timestamps that the data model
  gives every entity (the client hook of the frontend declares them as \<^verbatim>\<open>createdAt\<close> and
  \<^verbatim>\<open>updatedAt\<close>); a user has name, unique email, hashed password, role, phone and an
  optional link to a client.
\<close>

record client =
  client_id :: objid
  name :: string
  email :: string
  mobile :: "string option"
  address :: "string option"
  company :: "string option"
  client_notes :: "string option"
  client_status :: bool
  client_cases :: "objid list"
  client_createdBy :: "objid option"
  createdAt :: date
  updatedAt :: date

record user =
  user_id :: objid
  user_name :: string
  user_email :: string
  password :: string
  role :: string
  phone :: "string option"
  user_clientId :: "objid option"

subsection \<open>The database\<close>

record db =
  invoices :: "invoice list"
  tasks :: "task list"
  clients :: "client list"
  cases :: "case_doc list"
  appointments :: "appointment list"
  users :: "user list"

section \<open>routes/invoices.js\<close>

type_synonym invoice_body = "invoice_json body"

text \<open>
  \<^verbatim>\<open>GET /\<close>, \<^verbatim>\<open>GET /:id\<close> and \<^verbatim>\<open>GET /client/:clientId\<close>. What \<^verbatim>\<open>populate\<close> joins from
  other collections is left out of the written documents. The last route sorts by issue
  date, latest first; documents with the same issue date come in an order the database
  does not fix.
\<close>

definition getInvoices :: "db \<Rightarrow> invoice_body response \<times> db" where
  "getInvoices d = (Response 200 (Docs (map toJSON (invoices d))), d)"

definition getInvoice :: "db \<Rightarrow> path_id \<Rightarrow> invoice_body response \<times> db" where
  "getInvoice d rid =
     (case rid of
        Malformed \<Rightarrow> (Response 500 (Message ''Error fetching invoice''), d)
      | Oid i \<Rightarrow>
         (case findById inv_id (invoices d) i of
            None \<Rightarrow> (Response 404 (Message ''Invoice not found''), d)
          | Some invoice \<Rightarrow> (Response 200 (Doc (toJSON invoice)), d)))"

definition getClientInvoices :: "db \<Rightarrow> path_id \<Rightarrow> invoice_body response \<times> db" where
  "getClientInvoices d rid =
     (case rid of
        Malformed \<Rightarrow> (Response 500 (Message ''Error fetching client invoices''), d)
      | Oid c \<Rightarrow>
         (Response 200
            (Docs (map toJSON (rev (sort_key issueDate (filter (\<lambda>x. clientId x = c) (invoices d)))))),
          d))"

text \<open>
  \<^verbatim>\<open>String(n)\<close> of a non-negative integer and \<^verbatim>\<open>s.padStart(n, c)\<close> with a fill string of
  one character.
\<close>

definition digit_char :: "nat \<Rightarrow> char" where
  "digit_char k = ''0123456789'' ! k"

fun String_nat :: "nat \<Rightarrow> string" where
  "String_nat n =
     (if n < 10 then [digit_char n] else String_nat (n div 10) @ [digit_char (n mod 10)])"

declare String_nat.simps [simp del]

definition padStart :: "nat \<Rightarrow> char \<Rightarrow> string \<Rightarrow> string" where
  "padStart n c s = replicate (n - length s) c @ s"

text \<open>
  The body of \<^verbatim>\<open>POST /\<close>. A field that is absent is \<open>None\<close>; for a number \<open>None\<close> also
  stands for a value that is not a number, and for a date for a value that
  \<^verbatim>\<open>new Date\<close> does not parse. \<open>req_items\<close> is \<open>None\<close> when the field is absent or not an
  array. \<open>req_clientId\<close> is \<open>None\<close> when the field is absent or the empty string.
\<close>

record item_req =
  req_description :: "string option"
  req_quantity :: "number option"
  req_rate :: "number option"
  req_amount :: "number option"

text \<open>
  The two tax fields go through \<^verbatim>\<open>Number(x || 0)\<close> unchecked: a field that is absent or
  falsy gives zero, a number gives itself, and a truthy value that is no number gives
  NaN, which the schema's cast refuses when the document is saved.
\<close>

datatype tax_field = TaxAbsent | TaxNumber number | TaxNotNumber

definition Number_or_zero :: "tax_field \<Rightarrow> number option" where
  "Number_or_zero x = (case x of TaxAbsent \<Rightarrow> Some 0 | TaxNumber v \<Rightarrow> Some v | TaxNotNumber \<Rightarrow> None)"

record invoice_req =
  req_clientId :: "path_id option"
  req_clientName :: "string option"
  req_issueDate :: "date option"
  req_dueDate :: "date option"
  req_items :: "item_req list option"
  req_subtotal :: "number option"
  req_taxRate :: tax_field
  req_taxAmount :: tax_field
  req_total :: "number option"
  req_notes :: "string option"

text \<open>\<^verbatim>\<open>!s\<close> on a string field, \<^verbatim>\<open>isNaN(x) || x <= 0\<close> and \<^verbatim>\<open>isNaN(x) || x < 0\<close>.\<close>

definition falsy_string :: "string option \<Rightarrow> bool" where
  "falsy_string s = (case s of None \<Rightarrow> True | Some v \<Rightarrow> v = [])"

definition nan_or_le0 :: "number option \<Rightarrow> bool" where
  "nan_or_le0 x = (case x of None \<Rightarrow> True | Some v \<Rightarrow> v \<le> 0)"

definition nan_or_lt0 :: "number option \<Rightarrow> bool" where
  "nan_or_lt0 x = (case x of None \<Rightarrow> True | Some v \<Rightarrow> v < 0)"

text \<open>The loop over the items: the first failing check of the first failing item.\<close>

fun check_items :: "item_req list \<Rightarrow> string option" where
  "check_items [] = None"
| "check_items (it # rest) =
     (if falsy_string (req_description it) then Some ''Item description is required''
      else if nan_or_le0 (req_quantity it) then Some ''Item quantity must be a positive number''
      else if nan_or_lt0 (req_rate it) then Some ''Item rate must be a non-negative number''
      else if nan_or_lt0 (req_amount it) then Some ''Item amount must be a non-negative number''
      else check_items rest)"

text \<open>\<^verbatim>\<open>Number(x)\<close> on a field that passed the check \<^verbatim>\<open>isNaN(x)\<close>.\<close>

definition Number_or0 :: "number option \<Rightarrow> number" where
  "Number_or0 x = (case x of None \<Rightarrow> 0 | Some v \<Rightarrow> v)"

definition map_item :: "item_req \<Rightarrow> item" where
  "map_item it =
     \<lparr>service = None,
      description = (case req_description it of None \<Rightarrow> [] | Some s \<Rightarrow> s),
      quantity = Number_or0 (req_quantity it),
      rate = Number_or0 (req_rate it),
      amount = Number_or0 (req_amount it)\<rparr>"

text \<open>
  The validators of the schema: required strings are not empty, numbers respect
  \<^verbatim>\<open>min\<close> and \<^verbatim>\<open>max\<close>, the two status fields are in their enumerations.
\<close>

definition valid_item :: "item \<Rightarrow> bool" where
  "valid_item it \<longleftrightarrow> description it \<noteq> [] \<and> 1 \<le> quantity it \<and> 0 \<le> rate it \<and> 0 \<le> amount it"

definition valid_invoice :: "invoice \<Rightarrow> bool" where
  "valid_invoice x \<longleftrightarrow>
     invoiceNo x \<noteq> [] \<and> clientName x \<noteq> [] \<and> list_all valid_item (items x) \<and>
     0 \<le> subtotal x \<and> 0 \<le> taxRate x \<and> taxRate x \<le> 100 \<and> 0 \<le> taxAmount x \<and>
     0 \<le> inv_total x \<and> 0 \<le> paid x \<and>
     status x \<in> set [''Paid'', ''Partially Paid'', ''Unpaid'', ''Overdue''] \<and>
     clientStatus x \<in> set [''Viewed'', ''Not Viewed'']"

text \<open>
  \<^verbatim>\<open>POST /\<close>. \<open>newId\<close> is the identifier that the driver generates for the new document
  and \<open>caller\<close> the user id of the token. The messages of the validation errors are left
  out of the body. Saving fails when the schema's validators fail or when the unique
  index on \<^verbatim>\<open>invoiceNo\<close> already holds the number.
\<close>

definition createInvoice :: "objid \<Rightarrow> db \<Rightarrow> objid \<Rightarrow> invoice_req \<Rightarrow> invoice_body response \<times> db" where
  "createInvoice newId d caller body =
     (case req_clientId body of
        None \<Rightarrow> (Response 400 (Message ''Client ID is required''), d)
      | Some cid \<Rightarrow>
     if falsy_string (req_clientName body) then (Response 400 (Message ''Client name is required''), d)
     else (case req_issueDate body of
        None \<Rightarrow> (Response 400 (Message ''Invalid issue date format''), d)
      | Some issue \<Rightarrow>
     (case req_dueDate body of
        None \<Rightarrow> (Response 400 (Message ''Invalid due date format''), d)
      | Some due \<Rightarrow>
     (case req_items body of
        None \<Rightarrow> (Response 400 (Message ''At least one invoice item is required''), d)
      | Some its \<Rightarrow>
     if its = [] then (Response 400 (Message ''At least one invoice item is required''), d)
     else (case check_items its of
        Some msg \<Rightarrow> (Response 400 (Message msg), d)
      | None \<Rightarrow>
     if nan_or_lt0 (req_subtotal body)
     then (Response 400 (Message ''Subtotal must be a non-negative number''), d)
     else if nan_or_lt0 (req_total body)
     then (Response 400 (Message ''Total must be a non-negative number''), d)
     else
       let count = countDocuments (\<lambda>x. True) (invoices d);
           no = ''INV-'' @ padStart 6 (CHR ''0'') (String_nat (count + 1))
       in (case cid of
             Malformed \<Rightarrow> (Response 400 (Message ''Validation error''), d)
           | Oid c \<Rightarrow>
           (case Number_or_zero (req_taxRate body) of
             None \<Rightarrow> (Response 400 (Message ''Validation error''), d)
           | Some rate_in \<Rightarrow>
           (case Number_or_zero (req_taxAmount body) of
             None \<Rightarrow> (Response 400 (Message ''Validation error''), d)
           | Some tax_in \<Rightarrow>
              let newInvoice =
                    \<lparr>inv_id = newId, invoiceNo = no, clientId = c,
                     clientName = (case req_clientName body of None \<Rightarrow> [] | Some s \<Rightarrow> s),
                     issueDate = issue, dueDate = due, items = map map_item its,
                     subtotal = Number_or0 (req_subtotal body),
                     taxRate = rate_in,
                     taxAmount = tax_in,
                     inv_total = Number_or0 (req_total body),
                     paid = 0, status = ''Unpaid'', clientStatus = ''Not Viewed'',
                     inv_notes = req_notes body, createdBy = Some caller\<rparr>
              in if \<not> valid_invoice newInvoice
                 then (Response 400 (Message ''Validation error''), d)
                 else if \<exists>x \<in> set (invoices d). invoiceNo x = no
                 then (Response 400 (Message ''Error creating invoice''), d)
                 else (Response 201 (Doc (toJSON newInvoice)),
                       d\<lparr>invoices := invoices d @ [newInvoice]\<rparr>)))))))))"

text \<open>
  \<^verbatim>\<open>PUT /:id\<close> hands the body to the update whole, with \<^verbatim>\<open>runValidators\<close>. A key of
  the body that names a field overwrites the field, and the validators run on it before
  the document is looked up. The operator \<^verbatim>\<open>$inc\<close> in the body adds to a number field,
  and the update validators do not run on it. A field that the body both overwrites and
  increments is a conflict that the database refuses. Other operators are not modelled.
\<close>

record invoice_update =
  upd_invoiceNo :: "string option"
  upd_clientId :: "path_id option"
  upd_clientName :: "string option"
  upd_issueDate :: "date option"
  upd_dueDate :: "date option"
  upd_items :: "item list option"
  upd_subtotal :: "number option"
  upd_taxRate :: "number option"
  upd_taxAmount :: "number option"
  upd_total :: "number option"
  upd_paid :: "number option"
  upd_status :: "string option"
  upd_clientStatus :: "string option"
  upd_notes :: "string option"
  inc_subtotal :: "number option"
  inc_taxRate :: "number option"
  inc_taxAmount :: "number option"
  inc_total :: "number option"
  inc_paid :: "number option"

definition or_else :: "'a option \<Rightarrow> 'a \<Rightarrow> 'a" where
  "or_else v old = (case v of None \<Rightarrow> old | Some w \<Rightarrow> w)"

definition valid_update :: "invoice_update \<Rightarrow> bool" where
  "valid_update u \<longleftrightarrow>
     upd_invoiceNo u \<noteq> Some [] \<and> upd_clientId u \<noteq> Some Malformed \<and>
     upd_clientName u \<noteq> Some [] \<and>
     (case upd_items u of None \<Rightarrow> True | Some its \<Rightarrow> list_all valid_item its) \<and>
     (case upd_subtotal u of None \<Rightarrow> True | Some v \<Rightarrow> 0 \<le> v) \<and>
     (case upd_taxRate u of None \<Rightarrow> True | Some v \<Rightarrow> 0 \<le> v \<and> v \<le> 100) \<and>
     (case upd_taxAmount u of None \<Rightarrow> True | Some v \<Rightarrow> 0 \<le> v) \<and>
     (case upd_total u of None \<Rightarrow> True | Some v \<Rightarrow> 0 \<le> v) \<and>
     (case upd_paid u of None \<Rightarrow> True | Some v \<Rightarrow> 0 \<le> v) \<and>
     (case upd_status u of None \<Rightarrow> True
      | Some v \<Rightarrow> v \<in> set [''Paid'', ''Partially Paid'', ''Unpaid'', ''Overdue'']) \<and>
     (case upd_clientStatus u of None \<Rightarrow> True | Some v \<Rightarrow> v \<in> set [''Viewed'', ''Not Viewed''])"

definition conflicting :: "invoice_update \<Rightarrow> bool" where
  "conflicting u \<longleftrightarrow>
     (upd_subtotal u \<noteq> None \<and> inc_subtotal u \<noteq> None) \<or>
     (upd_taxRate u \<noteq> None \<and> inc_taxRate u \<noteq> None) \<or>
     (upd_taxAmount u \<noteq> None \<and> inc_taxAmount u \<noteq> None) \<or>
     (upd_total u \<noteq> None \<and> inc_total u \<noteq> None) \<or>
     (upd_paid u \<noteq> None \<and> inc_paid u \<noteq> None)"

definition apply_update :: "invoice_update \<Rightarrow> invoice \<Rightarrow> invoice" where
  "apply_update u x =
     x\<lparr>invoiceNo := or_else (upd_invoiceNo u) (invoiceNo x),
       clientId := (case upd_clientId u of Some (Oid c) \<Rightarrow> c | _ \<Rightarrow> clientId x),
       clientName := or_else (upd_clientName u) (clientName x),
       issueDate := or_else (upd_issueDate u) (issueDate x),
       dueDate := or_else (upd_dueDate u) (dueDate x),
       items := or_else (upd_items u) (items x),
       subtotal := or_else (upd_subtotal u) (subtotal x) + or_else (inc_subtotal u) 0,
       taxRate := or_else (upd_taxRate u) (taxRate x) + or_else (inc_taxRate u) 0,
       taxAmount := or_else (upd_taxAmount u) (taxAmount x) + or_else (inc_taxAmount u) 0,
       inv_total := or_else (upd_total u) (inv_total x) + or_else (inc_total u) 0,
       paid := or_else (upd_paid u) (paid x) + or_else (inc_paid u) 0,
       status := or_else (upd_status u) (status x),
       clientStatus := or_else (upd_clientStatus u) (clientStatus x),
       inv_notes := (case upd_notes u of None \<Rightarrow> inv_notes x | Some v \<Rightarrow> Some v)\<rparr>"

definition updateInvoice :: "db \<Rightarrow> path_id \<Rightarrow> invoice_update \<Rightarrow> invoice_body response \<times> db" where
  "updateInvoice d rid u =
     (case rid of
        Malformed \<Rightarrow> (Response 400 (Message ''Error updating invoice''), d)
      | Oid i \<Rightarrow>
         if \<not> valid_update u then (Response 400 (Message ''Error updating invoice''), d)
         else if conflicting u then (Response 400 (Message ''Error updating invoice''), d)
         else (case updatedDoc inv_id i (apply_update u) (invoices d) of
            None \<Rightarrow> (Response 404 (Message ''Invoice not found''), d)
          | Some updatedInvoice \<Rightarrow>
             if \<exists>x \<in> set (invoices d). inv_id x \<noteq> i \<and> invoiceNo x = invoiceNo updatedInvoice
             then (Response 400 (Message ''Error updating invoice''), d)
             else (Response 200 (Doc (toJSON updatedInvoice)),
                   d\<lparr>invoices := updateById inv_id i (apply_update u) (invoices d)\<rparr>)))"

text \<open>\<^verbatim>\<open>DELETE /:id\<close>, \<^verbatim>\<open>PATCH /:id/status\<close> and \<^verbatim>\<open>PATCH /:id/mark-viewed\<close>.\<close>

definition deleteInvoice :: "db \<Rightarrow> path_id \<Rightarrow> invoice_body response \<times> db" where
  "deleteInvoice d rid =
     (case rid of
        Malformed \<Rightarrow> (Response 400 (Message ''Error deleting invoice''), d)
      | Oid i \<Rightarrow>
         (case findById inv_id (invoices d) i of
            None \<Rightarrow> (Response 404 (Message ''Invoice not found''), d)
          | Some deletedInvoice \<Rightarrow>
             (Response 200 (Message ''Invoice deleted successfully''),
              d\<lparr>invoices := deleteById inv_id i (invoices d)\<rparr>)))"

definition updateInvoiceStatus :: "db \<Rightarrow> path_id \<Rightarrow> string option \<Rightarrow> invoice_body response \<times> db" where
  "updateInvoiceStatus d rid status_in =
     (if falsy_string status_in then (Response 400 (Message ''Status is required''), d)
      else (case rid of
        Malformed \<Rightarrow> (Response 400 (Message ''Error updating invoice status''), d)
      | Oid i \<Rightarrow>
         let upd = (\<lambda>x. x\<lparr>status := or_else status_in (status x)\<rparr>)
         in (case updatedDoc inv_id i upd (invoices d) of
               None \<Rightarrow> (Response 404 (Message ''Invoice not found''), d)
             | Some updatedInvoice \<Rightarrow>
                (Response 200 (Doc (toJSON updatedInvoice)),
                 d\<lparr>invoices := updateById inv_id i upd (invoices d)\<rparr>))))"

definition markViewed :: "db \<Rightarrow> path_id \<Rightarrow> invoice_body response \<times> db" where
  "markViewed d rid =
     (case rid of
        Malformed \<Rightarrow> (Response 400 (Message ''Error marking invoice as viewed''), d)
      | Oid i \<Rightarrow>
         let upd = (\<lambda>x. x\<lparr>clientStatus := ''Viewed''\<rparr>)
         in (case updatedDoc inv_id i upd (invoices d) of
               None \<Rightarrow> (Response 404 (Message ''Invoice not found''), d)
             | Some updatedInvoice \<Rightarrow>
                (Response 200 (Doc (toJSON updatedInvoice)),
                 d\<lparr>invoices := updateById inv_id i upd (invoices d)\<rparr>)))"

text \<open>
  \<^verbatim>\<open>POST /:id/payments\<close>. The amount of the request body is absent, a JSON number or a
  string; other JSON values are not modelled. The check
  \<^verbatim>\<open>!amount || isNaN(amount) || amount <= 0\<close> reads a string through \<^verbatim>\<open>Number\<close>, and the
  sum reads it through \<^verbatim>\<open>parseFloat\<close>: the two built-in conversions of a string are the
  parameters \<open>toNumber\<close> and \<open>parseFloat\<close>, with \<open>None\<close> for NaN. On a number both
  are the number itself. When \<^verbatim>\<open>parseFloat\<close> gives NaN the update throws on the paid
  amount and the handler answers 400. The update runs no validators.
\<close>

datatype amount_field = NoAmount | NumAmount number | StrAmount string

definition falsy_amount :: "amount_field \<Rightarrow> bool" where
  "falsy_amount a = (case a of NoAmount \<Rightarrow> True | NumAmount n \<Rightarrow> n = 0 | StrAmount s \<Rightarrow> s = [])"

definition Number_of :: "(string \<Rightarrow> number option) \<Rightarrow> amount_field \<Rightarrow> number option" where
  "Number_of toNumber a =
     (case a of NoAmount \<Rightarrow> None | NumAmount n \<Rightarrow> Some n | StrAmount s \<Rightarrow> toNumber s)"

definition parseFloat_of :: "(string \<Rightarrow> number option) \<Rightarrow> amount_field \<Rightarrow> number option" where
  "parseFloat_of parseFloat a =
     (case a of NoAmount \<Rightarrow> None | NumAmount n \<Rightarrow> Some n | StrAmount s \<Rightarrow> parseFloat s)"

definition recordPayment ::
  "(string \<Rightarrow> number option) \<Rightarrow> (string \<Rightarrow> number option) \<Rightarrow> db \<Rightarrow> path_id \<Rightarrow> amount_field
     \<Rightarrow> invoice_body response \<times> db" where
  "recordPayment toNumber parseFloat d rid amount_in =
     (if falsy_amount amount_in \<or> nan_or_le0 (Number_of toNumber amount_in)
      then (Response 400 (Message ''Valid payment amount is required''), d)
      else (case rid of
         Malformed \<Rightarrow> (Response 400 (Message ''Error recording payment''), d)
       | Oid i \<Rightarrow>
          (case findById inv_id (invoices d) i of
             None \<Rightarrow> (Response 404 (Message ''Invoice not found''), d)
           | Some invoice \<Rightarrow>
              (case parseFloat_of parseFloat amount_in of
                 None \<Rightarrow> (Response 400 (Message ''Error recording payment''), d)
               | Some a \<Rightarrow>
                   let newPaidAmount = paid invoice + a;
                       st = (if newPaidAmount \<ge> inv_total invoice then ''Paid''
                             else if newPaidAmount > 0 then ''Partially Paid''
                             else ''Unpaid'');
                       upd = (\<lambda>x. x\<lparr>paid := newPaidAmount, status := st\<rparr>)
                   in (case updatedDoc inv_id i upd (invoices d) of
                         None \<Rightarrow> (Response 200 Null, d)
                       | Some updatedInvoice \<Rightarrow>
                           (Response 200 (Doc (toJSON updatedInvoice)),
                            d\<lparr>invoices := updateById inv_id i upd (invoices d)\<rparr>))))))"

text \<open>The router: every request that the invoice routes answer.\<close>

datatype invoice_request =
    GET_invoices
  | GET_invoice path_id
  | GET_client_invoices path_id
  | POST_invoice objid objid invoice_req
  | PUT_invoice path_id invoice_update
  | DELETE_invoice path_id
  | PATCH_status path_id "string option"
  | PATCH_mark_viewed path_id
  | POST_payments path_id amount_field

fun invoices_router ::
  "(string \<Rightarrow> number option) \<Rightarrow> (string \<Rightarrow> number option) \<Rightarrow> db \<Rightarrow> invoice_request
     \<Rightarrow> invoice_body response \<times> db" where
  "invoices_router toNumber parseFloat d GET_invoices = getInvoices d"
| "invoices_router toNumber parseFloat d (GET_invoice rid) = getInvoice d rid"
| "invoices_router toNumber parseFloat d (GET_client_invoices rid) = getClientInvoices d rid"
| "invoices_router toNumber parseFloat d (POST_invoice newId caller body) = createInvoice newId d caller body"
| "invoices_router toNumber parseFloat d (PUT_invoice rid u) = updateInvoice d rid u"
| "invoices_router toNumber parseFloat d (DELETE_invoice rid) = deleteInvoice d rid"
| "invoices_router toNumber parseFloat d (PATCH_status rid s) = updateInvoiceStatus d rid s"
| "invoices_router toNumber parseFloat d (PATCH_mark_viewed rid) = markViewed d rid"
| "invoices_router toNumber parseFloat d (POST_payments rid a) = recordPayment toNumber parseFloat d rid a"

text \<open>The invoice documents that a response body shows.\<close>

fun shown :: "'d body \<Rightarrow> 'd list" where
  "shown (Doc j) = [j]"
| "shown (Docs js) = js"
| "shown (Message m) = []"
| "shown Null = []"

section \<open>routes/tasks.js\<close>

text \<open>
  \<open>caller\<close> is \<^verbatim>\<open>req.user.userId\<close>, the user id of the verified token. The three
  handlers fetch the task first and compare \<^verbatim>\<open>task.userId.toString()\<close> with it.

  \<^verbatim>\<open>PUT /:id\<close> overwrites the fields that the body names, with \<^verbatim>\<open>runValidators\<close>: a
  title must not be empty, status and priority must be in their enumerations and a user
  id must cast to an ObjectId. Update operators in the body are not modelled.
\<close>

record task_update =
  upd_title :: "string option"
  upd_description :: "string option"
  upd_task_dueDate :: "date option"
  upd_startDate :: "date option"
  upd_task_status :: "string option"
  upd_priority :: "string option"
  upd_completed :: "bool option"
  upd_userId :: "path_id option"
  upd_relatedTo :: "related option"

definition valid_task_update :: "task_update \<Rightarrow> bool" where
  "valid_task_update u \<longleftrightarrow>
     upd_title u \<noteq> Some [] \<and> upd_userId u \<noteq> Some Malformed \<and>
     (case upd_task_status u of None \<Rightarrow> True
      | Some v \<Rightarrow> v \<in> set [''Pending'', ''In Progress'', ''Completed'']) \<and>
     (case upd_priority u of None \<Rightarrow> True | Some v \<Rightarrow> v \<in> set [''Low'', ''Medium'', ''High''])"

definition apply_task_update :: "task_update \<Rightarrow> task \<Rightarrow> task" where
  "apply_task_update u t =
     t\<lparr>title := or_else (upd_title u) (title t),
       task_description := or_else (upd_description u) (task_description t),
       task_dueDate := or_else (upd_task_dueDate u) (task_dueDate t),
       startDate := or_else (upd_startDate u) (startDate t),
       task_status := or_else (upd_task_status u) (task_status t),
       priority := or_else (upd_priority u) (priority t),
       completed := or_else (upd_completed u) (completed t),
       userId := (case upd_userId u of Some (Oid w) \<Rightarrow> w | _ \<Rightarrow> userId t),
       relatedTo := or_else (upd_relatedTo u) (relatedTo t)\<rparr>"

definition updateTask :: "db \<Rightarrow> objid \<Rightarrow> path_id \<Rightarrow> task_update \<Rightarrow> task body response \<times> db" where
  "updateTask d caller rid u =
     (case rid of
        Malformed \<Rightarrow> (Response 400 (Message ''Error updating task''), d)
      | Oid i \<Rightarrow>
         (case findById task_id (tasks d) i of
            None \<Rightarrow> (Response 404 (Message ''Task not found''), d)
          | Some t \<Rightarrow>
             if userId t \<noteq> caller
             then (Response 403 (Message ''Not authorized to update this task''), d)
             else if \<not> valid_task_update u
             then (Response 400 (Message ''Error updating task''), d)
             else (case updatedDoc task_id i (apply_task_update u) (tasks d) of
                     None \<Rightarrow> (Response 200 Null, d)
                   | Some updatedTask \<Rightarrow>
                      (Response 200 (Doc updatedTask),
                       d\<lparr>tasks := updateById task_id i (apply_task_update u) (tasks d)\<rparr>))))"

definition deleteTask :: "db \<Rightarrow> objid \<Rightarrow> path_id \<Rightarrow> task body response \<times> db" where
  "deleteTask d caller rid =
     (case rid of
        Malformed \<Rightarrow> (Response 400 (Message ''Error deleting task''), d)
      | Oid i \<Rightarrow>
         (case findById task_id (tasks d) i of
            None \<Rightarrow> (Response 404 (Message ''Task not found''), d)
          | Some t \<Rightarrow>
             if userId t \<noteq> caller
             then (Response 403 (Message ''Not authorized to delete this task''), d)
             else (Response 200 (Message ''Task deleted successfully''),
                   d\<lparr>tasks := deleteById task_id i (tasks d)\<rparr>)))"

text \<open>
  \<^verbatim>\<open>PATCH /:id/toggle\<close>. \<^verbatim>\<open>task.save()\<close> writes the two paths that were assigned; they
  hold a boolean and a status of the enumeration, so its validation passes.
\<close>

definition toggleTask :: "db \<Rightarrow> objid \<Rightarrow> path_id \<Rightarrow> task body response \<times> db" where
  "toggleTask d caller rid =
     (case rid of
        Malformed \<Rightarrow> (Response 400 (Message ''Error toggling task''), d)
      | Oid i \<Rightarrow>
         (case findById task_id (tasks d) i of
            None \<Rightarrow> (Response 404 (Message ''Task not found''), d)
          | Some t \<Rightarrow>
             if userId t \<noteq> caller
             then (Response 403 (Message ''Not authorized to modify this task''), d)
             else
               let flag = \<not> completed t;
                   st = (if flag then ''Completed'' else ''In Progress'');
                   saved = t\<lparr>completed := flag, task_status := st\<rparr>
               in (Response 200 (Doc saved),
                   d\<lparr>tasks := updateById task_id i
                        (\<lambda>x. x\<lparr>completed := flag, task_status := st\<rparr>) (tasks d)\<rparr>)))"

section \<open>routes/clients.js\<close>

text \<open>
  The hard delete counts the cases with the filter \<^verbatim>\<open>{clientId: req.params.id}\<close>. The
  Case schema declares no path \<^verbatim>\<open>clientId\<close>, so no case written through the schema has
  one, and the id of the request goes into the filter as a string that nothing casts:
  the filter matches no case document.
\<close>

definition case_matches_clientId :: "case_doc \<Rightarrow> objid \<Rightarrow> bool" where
  "case_matches_clientId x i = False"

text \<open>
  \<^verbatim>\<open>DELETE /:id\<close>. \<open>soft\<close> is the query parameter \<^verbatim>\<open>soft\<close>, if given, and \<open>now\<close> the
  clock. The soft branch assigns the status and saves: when the assignment changes the
  status, the save writes that path and the mapper rewrites \<^verbatim>\<open>updatedAt\<close>; when the
  status was false already, nothing is modified and nothing is written. The hard branch
  looks at the client's own list of cases first, then counts the cases, the invoices and
  the appointments with the filter on \<^verbatim>\<open>clientId\<close>.
\<close>

definition deleteClient ::
  "date \<Rightarrow> db \<Rightarrow> path_id \<Rightarrow> string option \<Rightarrow> client envelope response \<times> db" where
  "deleteClient now d rid soft =
     (case rid of
        Malformed \<Rightarrow> (errorResponse ''Invalid Client ID'' 400, d)
      | Oid i \<Rightarrow>
         let softDelete = (soft = Some ''true'')
         in (case findById client_id (clients d) i of
            None \<Rightarrow> (errorResponse ''Client not found'' 404, d)
          | Some c \<Rightarrow>
             if softDelete
             then (successResponse None ''Client deactivated successfully'' 200,
                   d\<lparr>clients := updateById client_id i
                        (\<lambda>x. x\<lparr>client_status := False,
                               updatedAt := (if client_status x then now else updatedAt x)\<rparr>)
                        (clients d)\<rparr>)
             else if length (client_cases c) > 0
             then (errorResponse
                     ''Cannot delete client with active cases. Please remove or reassign all cases first.''
                     409, d)
             else
               let relatedCasesCount = countDocuments (\<lambda>x. case_matches_clientId x i) (cases d)
               in if relatedCasesCount > 0
               then (errorResponse
                       (''Cannot delete client with '' @ String_nat relatedCasesCount @
                        '' related cases. Please remove or reassign all cases first.'')
                       409, d)
               else
                 let relatedInvoicesCount = countDocuments (\<lambda>x. clientId x = i) (invoices d)
                 in if relatedInvoicesCount > 0
                 then (errorResponse
                         (''Cannot delete client with '' @ String_nat relatedInvoicesCount @
                          '' related invoices. Please remove all invoices first.'')
                         409, d)
                 else
                   let relatedAppointmentsCount =
                         countDocuments (\<lambda>x. appt_clientId x = i) (appointments d)
                   in if relatedAppointmentsCount > 0
                   then (errorResponse
                           (''Cannot delete client with '' @ String_nat relatedAppointmentsCount @
                            '' related appointments. Please remove all appointments first.'')
                           409, d)
                   else (successResponse None ''Client deleted successfully'' 200,
                         d\<lparr>clients := deleteById client_id i (clients d)\<rparr>)))"

section \<open>routes/auth.js\<close>

text \<open>
  \<^verbatim>\<open>POST /login\<close>. Modelled from the spec: \<^verbatim>\<open>user.comparePassword\<close> belongs to the user
  schema, which is not among the sources; the specification calls it a one-way
  verification routine, and it is the parameter \<open>comparePassword\<close> here. \<open>sign\<close> stands
  for \<^verbatim>\<open>jwt.sign\<close> with the server's secret and a lifetime of 24 hours. The handler
  writes nothing to the database.
\<close>

record token_payload =
  tp_userId :: objid
  tp_role :: string
  tp_clientId :: "objid option"

record user_info =
  ui_id :: objid
  ui_name :: string
  ui_email :: string
  ui_role :: string
  ui_clientId :: "objid option"

datatype auth_body =
    AuthMessage string
  | Session string user_info

definition login ::
  "(string \<Rightarrow> user \<Rightarrow> bool) \<Rightarrow> (token_payload \<Rightarrow> string) \<Rightarrow> db \<Rightarrow> string option \<Rightarrow> string option
     \<Rightarrow> auth_body response" where
  "login comparePassword sign d email_in password_in =
     (if falsy_string email_in \<or> falsy_string password_in
      then Response 400 (AuthMessage ''Please enter all fields'')
      else (case find (\<lambda>u. Some (user_email u) = email_in) (users d) of
         None \<Rightarrow> Response 400 (AuthMessage ''User does not exist'')
       | Some u \<Rightarrow>
          if \<not> comparePassword (or_else password_in []) u
          then Response 400 (AuthMessage ''Invalid credentials'')
          else
            let issue = (\<lambda>cid.
                  Response 200
                    (Session (sign \<lparr>tp_userId = user_id u, tp_role = role u, tp_clientId = cid\<rparr>)
                       \<lparr>ui_id = user_id u, ui_name = user_name u, ui_email = user_email u,
                        ui_role = role u, ui_clientId = cid\<rparr>))
            in if role u = ''client''
               then (case find (\<lambda>c. email c = user_email u) (clients d) of
                       None \<Rightarrow> Response 400 (AuthMessage ''Client account not found'')
                     | Some c \<Rightarrow>
                        if \<not> client_status c
                        then Response 403
                          (AuthMessage ''Your account is currently inactive. Please contact support.'')
                        else issue (Some (client_id c)))
               else issue (user_clientId u)))"

section \<open>routes/cases.js\<close>

text \<open>
  A field of the request body as the case routes meet it: undefined, null, a string, or
  any other JSON value (a number, a boolean, an array, an object). Of such a value the
  routes use whether it is truthy and what the schema's cast to a string makes of it:
  the text of a number or a boolean, and an error, here \<open>None\<close>, for an array or an
  object.
\<close>

datatype jsval = Undefined | JNull | JString jstring | JOther bool "jstring option"

datatype js_error = TypeError

text \<open>
  \<^verbatim>\<open>String.prototype.trim\<close> removes white space and line terminators from both ends:
  tab, line feed, vertical tab, form feed, carriage return, space, no-break space, the
  byte order mark, the line and paragraph separators and the other space separators of
  Unicode.
\<close>

definition is_space :: "nat \<Rightarrow> bool" where
  "is_space c \<longleftrightarrow>
     c \<in> set [0x09, 0x0A, 0x0B, 0x0C, 0x0D, 0x20, 0xA0, 0x1680, 0x2000, 0x2001, 0x2002,
              0x2003, 0x2004, 0x2005, 0x2006, 0x2007, 0x2008, 0x2009, 0x200A, 0x2028,
              0x2029, 0x202F, 0x205F, 0x3000, 0xFEFF]"

definition trim :: "jstring \<Rightarrow> jstring" where
  "trim s = rev (dropWhile is_space (rev (dropWhile is_space s)))"

text \<open>
  One step of the validator, \<^verbatim>\<open>if (!data.f?.trim()) errors.f = msg\<close>: the optional chain
  gives undefined on undefined and null, the trimmed string on a string, and on any other
  value the call of \<^verbatim>\<open>trim\<close>, which that value does not have, throws a TypeError. The
  errors object keeps its keys in the order of assignment.
\<close>

fun check_field ::
  "js_error + (string \<times> string) list \<Rightarrow> jsval \<Rightarrow> string \<Rightarrow> string
     \<Rightarrow> js_error + (string \<times> string) list" where
  "check_field (Inl e) v key msg = Inl e"
| "check_field (Inr errors) Undefined key msg = Inr (errors @ [(key, msg)])"
| "check_field (Inr errors) JNull key msg = Inr (errors @ [(key, msg)])"
| "check_field (Inr errors) (JString s) key msg =
     (if trim s = [] then Inr (errors @ [(key, msg)]) else Inr errors)"
| "check_field (Inr errors) (JOther truthy cast) key msg = Inl TypeError"

record case_req =
  req_case_clientName :: jsval
  req_clientNo :: jsval
  req_caseType :: jsval
  req_court :: jsval
  req_petitioner :: jsval
  req_respondent :: jsval
  req_courtNo :: "string option"
  req_magistrate :: "string option"
  req_nextDate :: "date option"
  req_case_status :: "string option"
  req_isImportant :: "bool option"
  req_isArchived :: "bool option"
  req_assignedTo :: "path_id option"

definition validateCaseData :: "case_req \<Rightarrow> js_error + (string \<times> string) list option" where
  "validateCaseData data =
     (let e1 = check_field (Inr []) (req_case_clientName data) ''clientName'' ''Client name is required'';
          e2 = check_field e1 (req_clientNo data) ''clientNo'' ''Client number is required'';
          e3 = check_field e2 (req_caseType data) ''caseType'' ''Case type is required'';
          e4 = check_field e3 (req_court data) ''court'' ''Court is required'';
          e5 = check_field e4 (req_petitioner data) ''petitioner'' ''Petitioner is required'';
          e6 = check_field e5 (req_respondent data) ''respondent'' ''Respondent is required''
      in (case e6 of
            Inl e \<Rightarrow> Inl e
          | Inr errors \<Rightarrow> Inr (if length errors > 0 then Some errors else None)))"

text \<open>
  \<^verbatim>\<open>new Case({...req.body, createdBy, assignedTo})\<close> after the validator has passed, when
  the six fields are strings. Fields of the body other than those of \<open>case_req\<close> are not
  modelled, so the new document has an empty timeline.
\<close>

definition string_of :: "jsval \<Rightarrow> jstring" where
  "string_of v = (case v of JString s \<Rightarrow> s | _ \<Rightarrow> [])"

definition new_Case :: "objid \<Rightarrow> objid \<Rightarrow> objid \<Rightarrow> case_req \<Rightarrow> case_doc" where
  "new_Case newId caller assignee body =
     \<lparr>case_id = newId,
      clientNo = string_of (req_clientNo body),
      case_clientName = string_of (req_case_clientName body),
      caseType = string_of (req_caseType body),
      court = string_of (req_court body),
      courtNo = req_courtNo body,
      magistrate = req_magistrate body,
      petitioner = string_of (req_petitioner body),
      respondent = string_of (req_respondent body),
      nextDate = req_nextDate body,
      case_status = or_else (req_case_status body) ''Pending'',
      isImportant = or_else (req_isImportant body) False,
      isArchived = or_else (req_isArchived body) False,
      assignedTo = assignee,
      case_createdBy = caller,
      timeline = []\<rparr>"

text \<open>
  Saving a new case fails when a validator of the schema fails (the six strings are
  required and so not empty, the status is in its enumeration) or when the unique index
  on \<^verbatim>\<open>clientNo\<close> already holds the number.
\<close>

definition case_saves :: "db \<Rightarrow> case_doc \<Rightarrow> bool" where
  "case_saves d x \<longleftrightarrow>
     clientNo x \<noteq> [] \<and> case_clientName x \<noteq> [] \<and> caseType x \<noteq> [] \<and> court x \<noteq> [] \<and>
     petitioner x \<noteq> [] \<and> respondent x \<noteq> [] \<and>
     case_status x \<in> set [''Pending'', ''On-Trial'', ''Completed'', ''Dismissed''] \<and>
     \<not> (\<exists>y \<in> set (cases d). clientNo y = clientNo x)"

text \<open>
  \<^verbatim>\<open>POST /\<close> and \<^verbatim>\<open>POST /simple\<close>. \<open>newId\<close> is the identifier generated for the new
  document, \<open>now\<close> the clock at the timeline entry, \<open>caller\<close> the user id of the
  token. A thrown error is answered with 400 and a message that starts with
  \<^verbatim>\<open>Error creating case\<close>; the text of the error after it is left out. An assignee that
  does not cast to an ObjectId fails the first save. The second save stores the
  timeline entry: \<^verbatim>\<open>POST /\<close> pushes it to the timeline and \<^verbatim>\<open>POST /simple\<close> assigns
  a timeline of that one entry.
\<close>

definition createCase ::
  "objid \<Rightarrow> date \<Rightarrow> db \<Rightarrow> objid \<Rightarrow> case_req \<Rightarrow> case_doc envelope response \<times> db" where
  "createCase newId now d caller body =
     (case validateCaseData body of
        Inl e \<Rightarrow> (errorResponse ''Error creating case'' 400, d)
      | Inr (Some errors) \<Rightarrow> (validationErrorResponse errors, d)
      | Inr None \<Rightarrow>
         (case or_else (req_assignedTo body) (Oid caller) of
            Malformed \<Rightarrow> (errorResponse ''Error creating case'' 400, d)
          | Oid assignee \<Rightarrow>
             let newCase = new_Case newId caller assignee body
             in if \<not> case_saves d newCase
                then (errorResponse ''Error creating case'' 400, d)
                else
                  let saved = newCase\<lparr>timeline := timeline newCase @
                        [\<lparr>tl_date = now, tl_description = ''Case created'', addedBy = caller\<rparr>]\<rparr>
                  in (successResponse (Some saved) ''Case created successfully'' 201,
                      d\<lparr>cases := cases d @ [saved]\<rparr>)))"

definition createCaseSimple ::
  "objid \<Rightarrow> date \<Rightarrow> db \<Rightarrow> objid \<Rightarrow> case_req \<Rightarrow> case_doc envelope response \<times> db" where
  "createCaseSimple newId now d caller body =
     (case validateCaseData body of
        Inl e \<Rightarrow> (errorResponse ''Error creating case'' 400, d)
      | Inr (Some errors) \<Rightarrow> (validationErrorResponse errors, d)
      | Inr None \<Rightarrow>
         (case or_else (req_assignedTo body) (Oid caller) of
            Malformed \<Rightarrow> (errorResponse ''Error creating case'' 400, d)
          | Oid assignee \<Rightarrow>
             let newCase = new_Case newId caller assignee body
             in if \<not> case_saves d newCase
                then (errorResponse ''Error creating case'' 400, d)
                else
                  let saved = newCase\<lparr>timeline :=
                        [\<lparr>tl_date = now, tl_description = ''Case created'', addedBy = caller\<rparr>]\<rparr>
                  in (successResponse (Some saved) ''Case created successfully'' 201,
                      d\<lparr>cases := cases d @ [saved]\<rparr>)))"

text \<open>
  \<^verbatim>\<open>POST /direct\<close> skips the validator. \<^verbatim>\<open>req.body.f || dflt\<close> keeps a truthy field and
  takes the default otherwise; the schema then casts what was kept to a string. The
  default of the client number is \<^verbatim>\<open>DIRECT-\<close> followed by the clock.
\<close>

definition or_default :: "jsval \<Rightarrow> jstring \<Rightarrow> jstring option" where
  "or_default v dflt =
     (case v of
        Undefined \<Rightarrow> Some dflt
      | JNull \<Rightarrow> Some dflt
      | JString s \<Rightarrow> Some (if s = [] then dflt else s)
      | JOther truthy cast \<Rightarrow> (if truthy then cast else Some dflt))"

definition createCaseDirect ::
  "objid \<Rightarrow> date \<Rightarrow> db \<Rightarrow> objid \<Rightarrow> case_req \<Rightarrow> case_doc envelope response \<times> db" where
  "createCaseDirect newId now d caller body =
     (let failed = (errorResponse ''Direct case creation failed'' 400, d) in
      case or_default (req_clientNo body) (units (''DIRECT-'' @ String_nat (nat now))) of
        None \<Rightarrow> failed | Some no \<Rightarrow>
     (case or_default (req_case_clientName body) (units ''Direct Test'') of
        None \<Rightarrow> failed | Some nm \<Rightarrow>
     (case or_default (req_caseType body) (units ''Test Case'') of
        None \<Rightarrow> failed | Some ty \<Rightarrow>
     (case or_default (req_court body) (units ''Test Court'') of
        None \<Rightarrow> failed | Some ct \<Rightarrow>
     (case or_default (req_petitioner body) (units ''Test Pet'') of
        None \<Rightarrow> failed | Some pe \<Rightarrow>
     (case or_default (req_respondent body) (units ''Test Resp'') of
        None \<Rightarrow> failed | Some re \<Rightarrow>
     (case or_else (req_assignedTo body) (Oid caller) of
        Malformed \<Rightarrow> failed
      | Oid assignee \<Rightarrow>
          let directCase =
                \<lparr>case_id = newId, clientNo = no, case_clientName = nm, caseType = ty,
                 court = ct, courtNo = None, magistrate = None, petitioner = pe,
                 respondent = re, nextDate = None, case_status = ''Pending'',
                 isImportant = False, isArchived = False, assignedTo = assignee,
                 case_createdBy = caller,
                 timeline = [\<lparr>tl_date = now, tl_description = ''Case created directly'',
                              addedBy = caller\<rparr>]\<rparr>
          in if \<not> case_saves d directCase then failed
             else (successResponse (Some directCase) ''Case created directly'' 201,
                   d\<lparr>cases := cases d @ [directCase]\<rparr>))))))))"

text \<open>
  In the specification's words: a field is missing when it is absent or blank after
  trimming. \<open>required_fields\<close> lists the six fields under their keys.
\<close>

definition is_blank :: "jsval \<Rightarrow> bool" where
  "is_blank v = (case v of Undefined \<Rightarrow> True | JNull \<Rightarrow> True | JString s \<Rightarrow> trim s = []
                 | JOther truthy cast \<Rightarrow> False)"

definition is_string_or_absent :: "jsval \<Rightarrow> bool" where
  "is_string_or_absent v = (case v of JOther truthy cast \<Rightarrow> False | _ \<Rightarrow> True)"

definition required_fields :: "case_req \<Rightarrow> (string \<times> jsval) list" where
  "required_fields data =
     [(''clientName'', req_case_clientName data), (''clientNo'', req_clientNo data),
      (''caseType'', req_caseType data), (''court'', req_court data),
      (''petitioner'', req_petitioner data), (''respondent'', req_respondent data)]"

section \<open>Reading a decimal numeral\<close>

text \<open>
  The value that a string of decimal digits denotes, to say in the specification's words
  what the digits of an invoice number are.
\<close>

definition digit_value :: "char \<Rightarrow> nat" where
  "digit_value c = of_char c - 48"

definition decimal_value :: "string \<Rightarrow> nat" where
  "decimal_value s = foldl (\<lambda>v c. 10 * v + digit_value c) 0 s"

definition is_digit :: "char \<Rightarrow> bool" where
  "is_digit c \<longleftrightarrow> c \<in> set ''0123456789''"

section \<open>Example documents\<close>

definition sample_invoice :: invoice where
  "sample_invoice =
     \<lparr>inv_id = 1, invoiceNo = ''INV-000001'', clientId = 7, clientName = ''Asha'',
      issueDate = 0, dueDate = 86400000,
      items = [\<lparr>service = None, description = ''Consult'', quantity = 2, rate = 100,
                amount = 200\<rparr>],
      subtotal = 200, taxRate = 0, taxAmount = 0, inv_total = 200, paid = 0,
      status = ''Unpaid'', clientStatus = ''Not Viewed'', inv_notes = None,
      createdBy = Some 3\<rparr>"

definition sample_db :: db where
  "sample_db = \<lparr>invoices = [sample_invoice], tasks = [], clients = [], cases = [],
                 appointments = [], users = []\<rparr>"

definition no_string :: "string \<Rightarrow> number option" where
  "no_string s = None"

definition sample_req :: invoice_req where
  "sample_req = \<lparr>req_clientId = Some (Oid 7), req_clientName = Some ''Asha'',
     req_issueDate = Some 0, req_dueDate = Some 86400000,
     req_items = Some [\<lparr>req_description = Some ''Consult'', req_quantity = Some 2,
                       req_rate = Some 100, req_amount = Some 200\<rparr>],
     req_subtotal = Some 200, req_taxRate = TaxAbsent, req_taxAmount = TaxAbsent,
     req_total = Some 200, req_notes = None\<rparr>"

definition sample_task :: task where
  "sample_task = \<lparr>task_id = 4, title = ''File brief'', task_description = [],
     task_dueDate = 86400000, startDate = 0, task_status = ''Pending'', priority = ''Medium'',
     completed = False, userId = 3,
     relatedTo = \<lparr>rel_name = None, caseNumber = None\<rparr>\<rparr>"

definition task_db :: db where
  "task_db = \<lparr>invoices = [], tasks = [sample_task], clients = [], cases = [],
               appointments = [], users = []\<rparr>"

definition retitle :: task_update where
  "retitle = \<lparr>upd_title = Some ''Taken over'', upd_description = None, upd_task_dueDate = None,
     upd_startDate = None, upd_task_status = None, upd_priority = None, upd_completed = None,
     upd_userId = Some (Oid 8), upd_relatedTo = None\<rparr>"

definition client_of :: "objid \<Rightarrow> string \<Rightarrow> objid list \<Rightarrow> client" where
  "client_of i mail listed =
     \<lparr>client_id = i, name = ''Client'', email = mail, mobile = None, address = None,
      company = None, client_notes = None, client_status = True, client_cases = listed,
      client_createdBy = Some 3, createdAt = 1000, updatedAt = 1000\<rparr>"

definition case_for :: "objid \<Rightarrow> string \<Rightarrow> case_doc" where
  "case_for i no =
     \<lparr>case_id = i, clientNo = units no, case_clientName = units ''Client'',
      caseType = units ''Civil'', court = units ''High Court'', courtNo = None,
      magistrate = None, petitioner = units ''P'', respondent = units ''R'', nextDate = None,
      case_status = ''Pending'', isImportant = False, isArchived = False, assignedTo = 3,
      case_createdBy = 3, timeline = []\<rparr>"

definition sample_appointment :: appointment where
  "sample_appointment =
     \<lparr>appt_id = 30, appt_title = ''Hearing'', appt_clientId = 6, dateTime = 0, duration = 60,
      location = [], appt_description = [], appt_status = ''Scheduled'', appt_createdBy = 3\<rparr>"

definition office_db :: db where
  "office_db =
     \<lparr>invoices = [sample_invoice,
                  sample_invoice\<lparr>inv_id := 2, invoiceNo := ''INV-000002'', clientId := 1\<rparr>],
      tasks = [],
      clients = [client_of 1 ''a@example.com'' [20], client_of 7 ''g@example.com'' [],
                 client_of 6 ''f@example.com'' [], client_of 2 ''b@example.com'' []],
      cases = [case_for 20 ''C-1''],
      appointments = [sample_appointment], users = []\<rparr>"

definition client_user :: user where
  "client_user = \<lparr>user_id = 40, user_name = ''Client'', user_email = ''a@example.com'',
     password = ''hash-of-secret'', role = ''client'', phone = None, user_clientId = Some 1\<rparr>"

definition closed_db :: db where
  "closed_db = \<lparr>invoices = [], tasks = [],
     clients = [client_of 1 ''a@example.com'' []\<lparr>client_status := False\<rparr>],
     cases = [], appointments = [], users = [client_user]\<rparr>"

text \<open>
  Two request bodies for a new case. In the first the client's name is blank and the
  client's number is the number 5. In the second the client's number is absent, the
  court is a no-break space and the respondent is null.
\<close>

definition bad_req :: case_req where
  "bad_req = \<lparr>req_case_clientName = JString (units ''  ''),
     req_clientNo = JOther True (Some (units ''5'')),
     req_caseType = JString (units ''Civil''), req_court = JString (units ''High Court''),
     req_petitioner = JString (units ''P''), req_respondent = JString (units ''R''),
     req_courtNo = None, req_magistrate = None, req_nextDate = None,
     req_case_status = None, req_isImportant = None, req_isArchived = None,
     req_assignedTo = None\<rparr>"

definition partial_req :: case_req where
  "partial_req = \<lparr>req_case_clientName = JString (units ''Asha''), req_clientNo = Undefined,
     req_caseType = JString (units ''Civil''), req_court = JString [0xA0],
     req_petitioner = JString (units ''P''), req_respondent = JNull,
     req_courtNo = None, req_magistrate = None, req_nextDate = None,
     req_case_status = None, req_isImportant = None, req_isArchived = None,
     req_assignedTo = None\<rparr>"

text \<open>
  A body for \<^verbatim>\<open>PUT /api/invoices/:id\<close> that is \<^verbatim>\<open>{"$inc": {"paid": -500}}\<close>, and the
  database in which it leaves the example invoice.
\<close>

definition decrement_paid :: invoice_update where
  "decrement_paid =
     \<lparr>upd_invoiceNo = None, upd_clientId = None, upd_clientName = None, upd_issueDate = None,
      upd_dueDate = None, upd_items = None, upd_subtotal = None, upd_taxRate = None,
      upd_taxAmount = None, upd_total = None, upd_paid = None, upd_status = None,
      upd_clientStatus = None, upd_notes = None, inc_subtotal = None, inc_taxRate = None,
      inc_taxAmount = None, inc_total = None, inc_paid = Some (- 500)\<rparr>"

definition overdrawn_db :: db where
  "overdrawn_db = sample_db\<lparr>invoices := [sample_invoice\<lparr>paid := - 500\<rparr>]\<rparr>"

text \<open>
  \<^verbatim>\<open>Number\<close> and \<^verbatim>\<open>parseFloat\<close> at the string \<^verbatim>\<open>0x10\<close>: the first reads a hexadecimal
  literal, 16, and the second stops after the zero. The examples use no other string;
  on any other the two definitions answer NaN.
\<close>

definition Number_0x10 :: "string \<Rightarrow> number option" where
  "Number_0x10 s = (if s = ''0x10'' then Some 16 else None)"

definition parseFloat_0x10 :: "string \<Rightarrow> number option" where
  "parseFloat_0x10 s = (if s = ''0x10'' then Some 0 else None)"

section \<open>Properties\<close>

lemma findById_updateById:
  "findById key docs i = Some x \<Longrightarrow> key (f x) = i \<Longrightarrow>
   findById key (updateById key i f docs) i = Some (f x)"
  by (induction docs) (auto simp: findById_def)

lemma findById_key: "findById key docs i = Some x \<Longrightarrow> key x = i"
  by (induction docs) (auto simp: findById_def split: if_splits)

lemma sample_invoice_found: "findById inv_id (invoices sample_db) 1 = Some sample_invoice"
  by (simp add: findById_def sample_db_def sample_invoice_def)

subsection \<open>Recording a payment\<close>

text \<open>What the handler answers and stores for an accepted amount on an invoice it finds.\<close>

lemma recordPayment_accepted:
  assumes found: "findById inv_id (invoices d) i = Some x" and pos: "0 < a"
  shows "recordPayment toNumber parseFloat d (Oid i) (NumAmount a) =
     (Response 200 (Doc (toJSON (x\<lparr>paid := paid x + a,
          status := (if paid x + a \<ge> inv_total x then ''Paid''
                     else if paid x + a > 0 then ''Partially Paid'' else ''Unpaid'')\<rparr>))),
      d\<lparr>invoices := updateById inv_id i
          (\<lambda>y. y\<lparr>paid := paid x + a,
                 status := (if paid x + a \<ge> inv_total x then ''Paid''
                            else if paid x + a > 0 then ''Partially Paid'' else ''Unpaid'')\<rparr>)
          (invoices d)\<rparr>)"
  using pos found
  by (simp add: recordPayment_def updatedDoc_def Let_def falsy_amount_def nan_or_le0_def
      Number_of_def parseFloat_of_def)

lemma updateInvoice_decrement:
  "updateInvoice sample_db (Oid 1) decrement_paid =
     (Response 200 (Doc (toJSON (sample_invoice\<lparr>paid := - 500\<rparr>))), overdrawn_db)"
  by (simp add: updateInvoice_def valid_update_def conflicting_def decrement_paid_def
      updatedDoc_def findById_def sample_db_def overdrawn_db_def apply_update_def
      or_else_def sample_invoice_def)

lemma overdrawn_found:
  "findById inv_id (invoices overdrawn_db) 1 = Some (sample_invoice\<lparr>paid := - 500\<rparr>)"
  by (simp add: findById_def overdrawn_db_def sample_db_def sample_invoice_def)

text \<open>
  C1 as stated fails on an invoice whose stored paid amount is negative, which the
  update route allows: the validators of the schema do not run on \<^verbatim>\<open>$inc\<close>. After
  \<^verbatim>\<open>{"$inc": {"paid": -500}}\<close> on the example invoice, of total 200, a payment of 100
  leaves the paid amount at -400 and the status Unpaid, where \<open>p + a\<close> is not zero.
\<close>

theorem recordPayment_paid_and_status_counterexample:
  "snd (updateInvoice sample_db (Oid 1) decrement_paid) = overdrawn_db
   \<and> findById inv_id (invoices overdrawn_db) 1 = Some (sample_invoice\<lparr>paid := - 500\<rparr>)
   \<and> fst (recordPayment no_string no_string overdrawn_db (Oid 1) (NumAmount 100)) =
       Response 200 (Doc (toJSON (sample_invoice\<lparr>paid := - 400, status := ''Unpaid''\<rparr>)))
   \<and> paid (sample_invoice\<lparr>paid := - 500\<rparr>) + 100 \<noteq> 0"
proof -
  have "recordPayment no_string no_string overdrawn_db (Oid 1) (NumAmount 100) =
     (Response 200 (Doc (toJSON (sample_invoice\<lparr>paid := - 400, status := ''Unpaid''\<rparr>))),
      overdrawn_db\<lparr>invoices := [sample_invoice\<lparr>paid := - 400, status := ''Unpaid''\<rparr>]\<rparr>)"
    using recordPayment_accepted [where a = 100 and toNumber = no_string
        and parseFloat = no_string, OF overdrawn_found]
    by (simp add: sample_invoice_def overdrawn_db_def sample_db_def)
  then show ?thesis using updateInvoice_decrement overdrawn_found by simp
qed

text \<open>
  C1, amended. On an invoice with paid amount \<open>p\<close> and total \<open>t\<close>, recording a payment
  of a positive number \<open>a\<close> answers 200 with the stored invoice, whose paid amount is
  \<open>p + a\<close> and whose status is Paid exactly when \<open>p + a \<ge> t\<close>, Partially Paid exactly
  when \<open>0 < p + a < t\<close>, and Unpaid exactly when \<open>p + a \<le> 0\<close> and \<open>p + a < t\<close>.
\<close>

theorem recordPayment_paid_and_status:
  assumes found: "findById inv_id (invoices d) i = Some x" and pos: "0 < a"
  shows "\<exists>x' d'. recordPayment toNumber parseFloat d (Oid i) (NumAmount a) =
             (Response 200 (Doc (toJSON x')), d')
           \<and> findById inv_id (invoices d') i = Some x'
           \<and> paid x' = paid x + a \<and> inv_total x' = inv_total x
           \<and> (status x' = ''Paid'' \<longleftrightarrow> paid x + a \<ge> inv_total x)
           \<and> (status x' = ''Partially Paid'' \<longleftrightarrow> 0 < paid x + a \<and> paid x + a < inv_total x)
           \<and> (status x' = ''Unpaid'' \<longleftrightarrow> paid x + a \<le> 0 \<and> paid x + a < inv_total x)"
proof -
  have k: "inv_id x = i" using found by (rule findById_key)
  define st where "st = (if paid x + a \<ge> inv_total x then ''Paid''
                         else if paid x + a > 0 then ''Partially Paid'' else ''Unpaid'')"
  define upd where "upd = (\<lambda>y::invoice. y\<lparr>paid := paid x + a, status := st\<rparr>)"
  have r: "recordPayment toNumber parseFloat d (Oid i) (NumAmount a) =
      (Response 200 (Doc (toJSON (upd x))), d\<lparr>invoices := updateById inv_id i upd (invoices d)\<rparr>)"
    using recordPayment_accepted [OF found pos] by (simp add: upd_def st_def)
  have f: "findById inv_id (updateById inv_id i upd (invoices d)) i = Some (upd x)"
    using found k by (intro findById_updateById) (simp_all add: upd_def)
  show ?thesis
    apply (rule exI[of _ "upd x"])
    apply (rule exI[of _ "d\<lparr>invoices := updateById inv_id i upd (invoices d)\<rparr>"])
    using r f by (auto simp: upd_def st_def)
qed

theorem recordPayment_paid_and_status_witness:
  "findById inv_id (invoices sample_db) 1 = Some sample_invoice \<and> (0::real) < 50
   \<and> (\<exists>x' d'. recordPayment no_string no_string sample_db (Oid 1) (NumAmount 50) =
               (Response 200 (Doc (toJSON x')), d')
           \<and> paid x' = 50 \<and> status x' = ''Partially Paid'')
   \<and> findById inv_id (invoices overdrawn_db) 1 = Some (sample_invoice\<lparr>paid := - 500\<rparr>)
   \<and> (0::real) < 100
   \<and> (\<exists>x' d'. recordPayment no_string no_string overdrawn_db (Oid 1) (NumAmount 100) =
               (Response 200 (Doc (toJSON x')), d')
           \<and> paid x' = - 400 \<and> status x' = ''Unpaid'')"
proof -
  from recordPayment_paid_and_status [where a = 50 and toNumber = no_string
      and parseFloat = no_string, OF sample_invoice_found]
  obtain x' d' where
    "recordPayment no_string no_string sample_db (Oid 1) (NumAmount 50) =
       (Response 200 (Doc (toJSON x')), d')"
    "paid x' = paid sample_invoice + 50"
    "status x' = ''Partially Paid'' \<longleftrightarrow>
       0 < paid sample_invoice + 50 \<and> paid sample_invoice + 50 < inv_total sample_invoice"
    by auto
  then have one: "\<exists>x' d'. recordPayment no_string no_string sample_db (Oid 1) (NumAmount 50) =
               (Response 200 (Doc (toJSON x')), d')
           \<and> paid x' = 50 \<and> status x' = ''Partially Paid''"
    by (auto simp: sample_invoice_def)
  from recordPayment_paid_and_status [where a = 100 and toNumber = no_string
      and parseFloat = no_string, OF overdrawn_found]
  obtain y' e' where
    "recordPayment no_string no_string overdrawn_db (Oid 1) (NumAmount 100) =
       (Response 200 (Doc (toJSON y')), e')"
    "paid y' = paid (sample_invoice\<lparr>paid := - 500\<rparr>) + 100"
    "status y' = ''Unpaid'' \<longleftrightarrow>
       paid (sample_invoice\<lparr>paid := - 500\<rparr>) + 100 \<le> 0
       \<and> paid (sample_invoice\<lparr>paid := - 500\<rparr>) + 100 < inv_total (sample_invoice\<lparr>paid := - 500\<rparr>)"
    by auto
  then have two: "\<exists>x' d'. recordPayment no_string no_string overdrawn_db (Oid 1) (NumAmount 100) =
               (Response 200 (Doc (toJSON x')), d')
           \<and> paid x' = - 400 \<and> status x' = ''Unpaid''"
    by (auto simp: sample_invoice_def)
  from one two show ?thesis using sample_invoice_found overdrawn_found by simp
qed

text \<open>
  A string amount is checked through \<^verbatim>\<open>Number\<close> and added through \<^verbatim>\<open>parseFloat\<close>. On a
  string that the first reads as positive and the second as zero, as they do a
  hexadecimal literal, the handler accepts the request and adds nothing, so that an
  invoice with nothing paid and a positive total is answered as Unpaid.
\<close>

lemma recordPayment_string_amount:
  assumes found: "findById inv_id (invoices d) i = Some x"
    and s: "s \<noteq> []" "toNumber s = Some n" "0 < n" "parseFloat s = Some 0"
    and x: "paid x = 0" "0 < inv_total x"
  shows "fst (recordPayment toNumber parseFloat d (Oid i) (StrAmount s)) =
     Response 200 (Doc (toJSON (x\<lparr>paid := 0, status := ''Unpaid''\<rparr>)))"
  using assms
  by (simp add: recordPayment_def updatedDoc_def Let_def falsy_amount_def nan_or_le0_def
      Number_of_def parseFloat_of_def)

text \<open>
  Where the stored paid amount is not negative and the amount is a number, a request
  that the handler does not reject with 400 leaves a strictly positive paid amount and a
  status other than Unpaid.
\<close>

lemma recordPayment_number_on_nonneg:
  assumes found: "findById inv_id (invoices d) i = Some x" and nonneg: "0 \<le> paid x"
    and run: "recordPayment toNumber parseFloat d (Oid i) (NumAmount a) = (r, d')"
    and passed: "statusCode r \<noteq> 400"
  shows "\<exists>x'. r = Response 200 (Doc (toJSON x')) \<and> findById inv_id (invoices d') i = Some x'
           \<and> 0 < paid x' \<and> status x' \<noteq> ''Unpaid''"
proof -
  from run passed have pos: "0 < a"
    by (auto simp: recordPayment_def falsy_amount_def nan_or_le0_def Number_of_def
        split: if_splits)
  have k: "inv_id x = i" using found by (rule findById_key)
  define upd where "upd = (\<lambda>y::invoice. y\<lparr>paid := paid x + a,
       status := (if paid x + a \<ge> inv_total x then ''Paid''
                  else if paid x + a > 0 then ''Partially Paid'' else ''Unpaid'')\<rparr>)"
  have r: "r = Response 200 (Doc (toJSON (upd x)))"
    and d': "d' = d\<lparr>invoices := updateById inv_id i upd (invoices d)\<rparr>"
    using recordPayment_accepted [where toNumber = toNumber and parseFloat = parseFloat,
        OF found pos] run
    by (simp_all add: upd_def)
  have f: "findById inv_id (updateById inv_id i upd (invoices d)) i = Some (upd x)"
    using found k by (intro findById_updateById) (simp_all add: upd_def)
  have sum_pos: "0 < paid x + a" using pos nonneg by simp
  show ?thesis
    apply (rule exI[of _ "upd x"])
    using r d' f sum_pos by (simp add: upd_def)
qed

text \<open>
  C9 is not what the code does: a request that passes the check of the amount can be
  answered as Unpaid, in two ways. The amount \<^verbatim>\<open>"0x10"\<close> passes the check, which reads
  it as 16, and adds zero, so that the example invoice, with nothing paid of 200, stays
  Unpaid. And after \<^verbatim>\<open>{"$inc": {"paid": -500}}\<close> through the update route, the payment
  of the number 100 leaves -400 paid and the status Unpaid.
\<close>

theorem recordPayment_unpaid_reached:
  "fst (recordPayment Number_0x10 parseFloat_0x10 sample_db (Oid 1) (StrAmount ''0x10'')) =
       Response 200 (Doc (toJSON (sample_invoice\<lparr>paid := 0, status := ''Unpaid''\<rparr>)))
   \<and> updateInvoice sample_db (Oid 1) decrement_paid =
       (Response 200 (Doc (toJSON (sample_invoice\<lparr>paid := - 500\<rparr>))), overdrawn_db)
   \<and> fst (recordPayment Number_0x10 parseFloat_0x10 overdrawn_db (Oid 1) (NumAmount 100)) =
       Response 200 (Doc (toJSON (sample_invoice\<lparr>paid := - 400, status := ''Unpaid''\<rparr>)))"
proof -
  have one: "fst (recordPayment Number_0x10 parseFloat_0x10 sample_db (Oid 1) (StrAmount ''0x10''))
      = Response 200 (Doc (toJSON (sample_invoice\<lparr>paid := 0, status := ''Unpaid''\<rparr>)))"
    by (rule recordPayment_string_amount [OF sample_invoice_found, where n = 16])
       (simp_all add: Number_0x10_def parseFloat_0x10_def sample_invoice_def)
  have two: "recordPayment Number_0x10 parseFloat_0x10 overdrawn_db (Oid 1) (NumAmount 100) =
     (Response 200 (Doc (toJSON (sample_invoice\<lparr>paid := - 400, status := ''Unpaid''\<rparr>))),
      overdrawn_db\<lparr>invoices := [sample_invoice\<lparr>paid := - 400, status := ''Unpaid''\<rparr>]\<rparr>)"
    using recordPayment_accepted [where a = 100 and toNumber = Number_0x10
        and parseFloat = parseFloat_0x10, OF overdrawn_found]
    by (simp add: sample_invoice_def overdrawn_db_def sample_db_def)
  from one two updateInvoice_decrement show ?thesis by simp
qed

subsection \<open>Invoice numbers\<close>

lemma toJSON_balanceDue: "balanceDue (toJSON x) = inv_total (toJSON x) - paid (toJSON x)"
  by (simp add: toJSON_def balanceDue_getter_def invoice.defs invoice_json.defs)

lemma toJSON_fields: "invoiceNo (toJSON x) = invoiceNo x" "paid (toJSON x) = paid x"
  "inv_total (toJSON x) = inv_total x" "status (toJSON x) = status x"
  by (simp_all add: toJSON_def invoice.defs invoice_json.defs)

lemma findById_mem: "findById key docs i = Some x \<Longrightarrow> x \<in> set docs"
  by (induction docs) (auto simp: findById_def split: if_splits)

lemma updatedDoc_mem:
  "updatedDoc key i f docs = Some y \<Longrightarrow> y \<in> set (updateById key i f docs)"
  by (induction docs) (auto simp: updatedDoc_def findById_def split: if_splits)

lemma digit_cases: "k < 10 \<Longrightarrow> k \<in> {0, 1, 2, 3, 4, 5, 6, 7, 8, 9::nat}"
  by auto

lemma digit_value_char: "k < 10 \<Longrightarrow> digit_value (digit_char k) = k"
  by (drule digit_cases) (auto simp: digit_value_def digit_char_def)

lemma is_digit_char: "k < 10 \<Longrightarrow> is_digit (digit_char k)"
  by (drule digit_cases) (auto simp: is_digit_def digit_char_def)

lemma decimal_value_snoc: "decimal_value (s @ [c]) = 10 * decimal_value s + digit_value c"
  by (simp add: decimal_value_def)

lemma decimal_value_String_nat: "decimal_value (String_nat n) = n"
proof (induction n rule: String_nat.induct)
  case (1 n)
  show ?case
  proof (cases "n < 10")
    case True
    then show ?thesis
      by (subst String_nat.simps) (simp add: decimal_value_def digit_value_char)
  next
    case False
    then have "decimal_value (String_nat (n div 10)) = n div 10" using 1 by simp
    with False show ?thesis
      by (subst String_nat.simps) (simp add: decimal_value_snoc digit_value_char)
  qed
qed

lemma digits_String_nat: "list_all is_digit (String_nat n)"
proof (induction n rule: String_nat.induct)
  case (1 n)
  then show ?case
    by (subst String_nat.simps) (simp add: is_digit_char)
qed

lemma decimal_value_zeros: "decimal_value (replicate k (CHR ''0'') @ s) = decimal_value s"
proof -
  have z: "digit_value (CHR ''0'') = 0" by (simp add: digit_value_def)
  have "decimal_value (replicate k (CHR ''0'')) = 0"
  proof (induction k)
    case 0
    show ?case by (simp add: decimal_value_def)
  next
    case (Suc k)
    have "decimal_value (replicate (Suc k) (CHR ''0'')) =
          decimal_value (replicate k (CHR ''0'') @ [CHR ''0''])"
      by (simp add: replicate_append_same)
    also have "\<dots> = 0" using Suc z by (simp only: decimal_value_snoc)
    finally show ?case .
  qed
  then show ?thesis by (simp add: decimal_value_def)
qed

lemma decimal_value_padStart: "decimal_value (padStart n (CHR ''0'') s) = decimal_value s"
  by (simp add: padStart_def decimal_value_zeros)

lemma is_digit_0: "is_digit (CHR ''0'')"
  by (simp add: is_digit_def)

lemma digits_padStart: "list_all is_digit s \<Longrightarrow> list_all is_digit (padStart n (CHR ''0'') s)"
  by (auto simp: padStart_def list_all_iff is_digit_0)

lemma length_padStart: "length (padStart n c s) = max n (length s)"
  by (simp add: padStart_def)

lemma length_String_nat: "0 < k \<Longrightarrow> n < 10 ^ k \<Longrightarrow> length (String_nat n) \<le> k"
proof (induction n arbitrary: k rule: String_nat.induct)
  case (1 n)
  show ?case
  proof (cases "n < 10")
    case True
    with 1(2) show ?thesis by (subst String_nat.simps) simp
  next
    case False
    have "k \<noteq> 1" using False 1(3) by auto
    with 1(2) obtain j where j: "k = Suc j" "0 < j" by (cases k) auto
    from 1(3) j have "n < 10 * 10 ^ j" by simp
    then have "n div 10 < 10 ^ j" by (simp add: less_mult_imp_div_less mult.commute)
    with 1(1) [OF False j(2)] have "length (String_nat (n div 10)) \<le> j" .
    with False j show ?thesis by (subst String_nat.simps) simp
  qed
qed


lemma String_nat_1: "String_nat (Suc 0) = ''1''"
  by (subst String_nat.simps) (simp add: digit_char_def)

lemma padStart_1: "padStart 6 (CHR ''0'') ''1'' = ''000001''"
  by (simp add: padStart_def eval_nat_numeral)

lemma createInvoice_sample:
  "createInvoice 1 (sample_db\<lparr>invoices := []\<rparr>) 3 sample_req =
     (Response 201 (Doc (toJSON sample_invoice)), sample_db)"
  by (simp add: createInvoice_def sample_req_def sample_db_def Let_def countDocuments_def
      falsy_string_def nan_or_le0_def nan_or_lt0_def padStart_1 String_nat_1 valid_invoice_def
      valid_item_def map_item_def Number_or0_def Number_or_zero_def sample_invoice_def)



text \<open>
  C7. A creation that answers 201 stores and shows an invoice whose number is
  \<^verbatim>\<open>INV-\<close> followed by the decimal digits of the count of invoices plus one, padded on
  the left with zeros to six characters: after the prefix come only digits, they denote
  \<open>n + 1\<close>, and there are six of them unless \<open>n + 1\<close> needs more.
\<close>

theorem createInvoice_number:
  assumes run: "createInvoice newId d caller body = (r, d')" and ok: "statusCode r = 201"
  shows "\<exists>x. r = Response 201 (Doc (toJSON x)) \<and> d' = d\<lparr>invoices := invoices d @ [x]\<rparr>
     \<and> invoiceNo x = ''INV-'' @ padStart 6 (CHR ''0'') (String_nat (length (invoices d) + 1))
     \<and> list_all is_digit (drop 4 (invoiceNo x))
     \<and> decimal_value (drop 4 (invoiceNo x)) = length (invoices d) + 1
     \<and> length (drop 4 (invoiceNo x)) = max 6 (length (String_nat (length (invoices d) + 1)))
     \<and> (length (invoices d) + 1 < 10 ^ 6 \<longrightarrow> length (drop 4 (invoiceNo x)) = 6)"
proof -
  define no where "no = ''INV-'' @ padStart 6 (CHR ''0'') (String_nat (length (invoices d) + 1))"
  from run ok obtain x where r: "r = Response 201 (Doc (toJSON x))"
    and d': "d' = d\<lparr>invoices := invoices d @ [x]\<rparr>" and x: "invoiceNo x = no"
    unfolding createInvoice_def no_def
    by (auto simp: Let_def countDocuments_def split: option.splits if_splits path_id.splits)
  have "drop 4 no = padStart 6 (CHR ''0'') (String_nat (length (invoices d) + 1))"
    by (simp add: no_def)
  then have "list_all is_digit (drop 4 no)"
    "decimal_value (drop 4 no) = length (invoices d) + 1"
    "length (drop 4 no) = max 6 (length (String_nat (length (invoices d) + 1)))"
    by (simp_all add: digits_padStart digits_String_nat decimal_value_padStart
        decimal_value_String_nat length_padStart)
  moreover have "length (drop 4 no) = 6" if "length (invoices d) + 1 < 10 ^ 6"
    using length_String_nat [OF _ that] \<open>drop 4 no = _\<close> by (simp add: length_padStart)
  ultimately show ?thesis using r d' x unfolding no_def [symmetric] by blast
qed


theorem createInvoice_number_witness:
  "statusCode (fst (createInvoice 1 (sample_db\<lparr>invoices := []\<rparr>) 3 sample_req)) = 201
   \<and> (\<exists>x. fst (createInvoice 1 (sample_db\<lparr>invoices := []\<rparr>) 3 sample_req) =
            Response 201 (Doc (toJSON x))
          \<and> invoiceNo x = ''INV-000001'' \<and> decimal_value (drop 4 (invoiceNo x)) = 1)"
proof -
  have ok: "statusCode (Response 201 (Doc (toJSON sample_invoice))) = 201" by simp
  from createInvoice_number [OF createInvoice_sample ok]
  obtain x where x: "Response 201 (Doc (toJSON sample_invoice)) = Response 201 (Doc (toJSON x))"
    "invoiceNo x = ''INV-'' @ padStart 6 (CHR ''0'')
       (String_nat (length (invoices (sample_db\<lparr>invoices := []\<rparr>)) + 1))"
    "decimal_value (drop 4 (invoiceNo x)) = length (invoices (sample_db\<lparr>invoices := []\<rparr>)) + 1"
    by blast
  have "invoiceNo x = ''INV-000001''" "decimal_value (drop 4 (invoiceNo x)) = 1"
    using x(2,3) by (simp_all add: String_nat_1 padStart_1)
  with x(1) show ?thesis unfolding createInvoice_sample by auto
qed

subsection \<open>The balance due\<close>

text \<open>
  C2. Every invoice document that any request to the invoice routes shows in its
  response is the serialisation of an invoice of the collection as the request leaves
  it, and its \<^verbatim>\<open>balanceDue\<close> is its total minus its paid amount.
\<close>

theorem invoices_router_balanceDue:
  assumes "j \<in> set (shown (json (fst (invoices_router toNumber parseFloat d rq))))"
  shows "balanceDue j = inv_total j - paid j \<and> (\<exists>x \<in> set (invoices (snd (invoices_router toNumber parseFloat d rq))). j = toJSON x)"
proof -
  have "\<exists>x \<in> set (invoices (snd (invoices_router toNumber parseFloat d rq))). j = toJSON x"
  proof (cases rq)
    case GET_invoices
    then show ?thesis using assms by (auto simp: getInvoices_def)
  next
    case (GET_invoice rid)
    then show ?thesis using assms
      by (auto simp: getInvoice_def dest: findById_mem split: path_id.splits option.splits)
  next
    case (GET_client_invoices rid)
    then show ?thesis using assms
      by (auto simp: getClientInvoices_def split: path_id.splits)
  next
    case (POST_invoice newId caller body)
    then show ?thesis using assms
      by (auto simp: createInvoice_def Let_def split: path_id.splits option.splits if_splits)
  next
    case (PUT_invoice rid u)
    then show ?thesis using assms
      by (auto simp: updateInvoice_def dest: updatedDoc_mem split: path_id.splits option.splits if_splits)
  next
    case (DELETE_invoice rid)
    then show ?thesis using assms
      by (auto simp: deleteInvoice_def split: path_id.splits option.splits)
  next
    case (PATCH_status rid s)
    then show ?thesis using assms
      by (auto simp: updateInvoiceStatus_def Let_def dest: updatedDoc_mem split: path_id.splits option.splits if_splits)
  next
    case (PATCH_mark_viewed rid)
    then show ?thesis using assms
      by (auto simp: markViewed_def Let_def dest: updatedDoc_mem split: path_id.splits option.splits)
  next
    case (POST_payments rid a)
    then show ?thesis using assms
      by (auto simp: recordPayment_def Let_def dest: updatedDoc_mem
          split: path_id.splits option.splits if_splits)
  qed
  then show ?thesis by (auto simp: toJSON_balanceDue)
qed


theorem invoices_router_balanceDue_witness:
  "toJSON (sample_invoice\<lparr>paid := 200, status := ''Paid''\<rparr>)
     \<in> set (shown (json (fst (invoices_router no_string no_string sample_db
                   (POST_payments (Oid 1) (NumAmount 200))))))
   \<and> balanceDue (toJSON (sample_invoice\<lparr>paid := 200, status := ''Paid''\<rparr>)) = 0"
proof -
  have r: "recordPayment no_string no_string sample_db (Oid 1) (NumAmount 200) =
      (Response 200 (Doc (toJSON (sample_invoice\<lparr>paid := 200, status := ''Paid''\<rparr>))),
       sample_db\<lparr>invoices := [sample_invoice\<lparr>paid := 200, status := ''Paid''\<rparr>]\<rparr>)"
    using recordPayment_accepted [where a = 200 and toNumber = no_string
        and parseFloat = no_string, OF sample_invoice_found]
    by (simp add: sample_invoice_def sample_db_def)
  then have m: "toJSON (sample_invoice\<lparr>paid := 200, status := ''Paid''\<rparr>)
     \<in> set (shown (json (fst (invoices_router no_string no_string sample_db
                   (POST_payments (Oid 1) (NumAmount 200))))))"
    by simp
  from invoices_router_balanceDue [OF m] m show ?thesis
    by (simp add: toJSON_fields sample_invoice_def)
qed

subsection \<open>Tasks\<close>

lemma sample_task_found: "findById task_id (tasks task_db) 4 = Some sample_task"
  by (simp add: findById_def task_db_def sample_task_def)

text \<open>
  C4. When the caller is not the user of a task that exists, update, delete and toggle
  each answer 403 and leave the database, and so the task, as it was.
\<close>

theorem task_routes_forbidden:
  assumes found: "findById task_id (tasks d) i = Some t" and other: "userId t \<noteq> caller"
  shows "updateTask d caller (Oid i) u =
           (Response 403 (Message ''Not authorized to update this task''), d)
       \<and> deleteTask d caller (Oid i) =
           (Response 403 (Message ''Not authorized to delete this task''), d)
       \<and> toggleTask d caller (Oid i) =
           (Response 403 (Message ''Not authorized to modify this task''), d)"
  using found other by (simp add: updateTask_def deleteTask_def toggleTask_def)

theorem task_routes_forbidden_witness:
  "findById task_id (tasks task_db) 4 = Some sample_task \<and> userId sample_task \<noteq> 8
   \<and> updateTask task_db 8 (Oid 4) retitle =
        (Response 403 (Message ''Not authorized to update this task''), task_db)
   \<and> snd (deleteTask task_db 8 (Oid 4)) = task_db
   \<and> findById task_id (tasks (snd (toggleTask task_db 8 (Oid 4)))) 4 = Some sample_task"
proof -
  have o: "userId sample_task \<noteq> 8" by (simp add: sample_task_def)
  from task_routes_forbidden [OF sample_task_found o, of retitle] show ?thesis
    using sample_task_found o by simp
qed

lemma toggleTask_owner:
  assumes found: "findById task_id (tasks d) i = Some t" and own: "userId t = caller"
  shows "toggleTask d caller (Oid i) =
     (Response 200 (Doc (t\<lparr>completed := \<not> completed t,
          task_status := (if \<not> completed t then ''Completed'' else ''In Progress'')\<rparr>)),
      d\<lparr>tasks := updateById task_id i
           (\<lambda>x. x\<lparr>completed := \<not> completed t,
                  task_status := (if \<not> completed t then ''Completed'' else ''In Progress'')\<rparr>)
           (tasks d)\<rparr>)"
  using found own by (simp add: toggleTask_def Let_def)

text \<open>
  C10. Two toggles in a row by the owner of a task answer 200 and store the task with
  its completed flag as it was at the start and with the status that the flag
  determines, Completed when it is true and In Progress when it is false, whatever the
  status was at the start: all other fields are as before, and the status is never
  Pending.
\<close>

theorem toggleTask_twice:
  assumes found: "findById task_id (tasks d) i = Some t" and own: "userId t = caller"
    and first: "toggleTask d caller (Oid i) = (r1, d1)"
    and second: "toggleTask d1 caller (Oid i) = (r2, d2)"
  shows "\<exists>t2. r2 = Response 200 (Doc t2) \<and> findById task_id (tasks d2) i = Some t2
           \<and> completed t2 = completed t
           \<and> task_status t2 = (if completed t2 then ''Completed'' else ''In Progress'')
           \<and> task_status t2 \<noteq> ''Pending''
           \<and> t2 = t\<lparr>task_status := (if completed t then ''Completed'' else ''In Progress'')\<rparr>"
proof -
  have k: "task_id t = i" using found by (rule findById_key)
  define f1 where "f1 = (\<lambda>x::task. x\<lparr>completed := \<not> completed t,
        task_status := (if \<not> completed t then ''Completed'' else ''In Progress'')\<rparr>)"
  have d1: "d1 = d\<lparr>tasks := updateById task_id i f1 (tasks d)\<rparr>"
    using toggleTask_owner [OF found own] first by (simp add: f1_def)
  have found1: "findById task_id (tasks d1) i = Some (f1 t)"
    unfolding d1 using found k by (simp add: findById_updateById f1_def)
  have own1: "userId (f1 t) = caller" using own by (simp add: f1_def)
  define f2 where "f2 = (\<lambda>x::task. x\<lparr>completed := \<not> completed (f1 t),
        task_status := (if \<not> completed (f1 t) then ''Completed'' else ''In Progress'')\<rparr>)"
  have r2: "r2 = Response 200 (Doc (f2 (f1 t)))"
    and d2: "d2 = d1\<lparr>tasks := updateById task_id i f2 (tasks d1)\<rparr>"
    using toggleTask_owner [OF found1 own1] second by (simp_all add: f2_def)
  have found2: "findById task_id (tasks d2) i = Some (f2 (f1 t))"
    unfolding d2 using found1 k by (simp add: findById_updateById f1_def f2_def)
  show ?thesis
    apply (rule exI[of _ "f2 (f1 t)"])
    using r2 found2 by (simp add: f1_def f2_def)
qed

theorem toggleTask_twice_witness:
  "findById task_id (tasks task_db) 4 = Some sample_task \<and> userId sample_task = 3
   \<and> task_status sample_task = ''Pending''
   \<and> (\<exists>t2. fst (toggleTask (snd (toggleTask task_db 3 (Oid 4))) 3 (Oid 4)) = Response 200 (Doc t2)
         \<and> completed t2 = completed sample_task \<and> task_status t2 = ''In Progress'')"
proof -
  have o: "userId sample_task = 3" by (simp add: sample_task_def)
  from toggleTask_twice [OF sample_task_found o, of "fst (toggleTask task_db 3 (Oid 4))"
      "snd (toggleTask task_db 3 (Oid 4))"
      "fst (toggleTask (snd (toggleTask task_db 3 (Oid 4))) 3 (Oid 4))"
      "snd (toggleTask (snd (toggleTask task_db 3 (Oid 4))) 3 (Oid 4))"]
  obtain t2 where "fst (toggleTask (snd (toggleTask task_db 3 (Oid 4))) 3 (Oid 4)) = Response 200 (Doc t2)"
    "completed t2 = completed sample_task"
    "task_status t2 = (if completed t2 then ''Completed'' else ''In Progress'')"
    by auto
  then show ?thesis using sample_task_found o by (auto simp: sample_task_def)
qed


subsection \<open>Deleting a client\<close>

lemma findById_updateById_other:
  "j \<noteq> i \<Longrightarrow> (\<And>x. key (f x) = key x) \<Longrightarrow>
   findById key (updateById key i f docs) j = findById key docs j"
  by (induction docs) (auto simp: findById_def)

lemma length_updateById: "length (updateById key i f docs) = length docs"
  by (induction docs) auto

lemma office_clients:
  "findById client_id (clients office_db) 1 = Some (client_of 1 ''a@example.com'' [20])"
  "findById client_id (clients office_db) 7 = Some (client_of 7 ''g@example.com'' [])"
  "findById client_id (clients office_db) 6 = Some (client_of 6 ''f@example.com'' [])"
  "findById client_id (clients office_db) 2 = Some (client_of 2 ''b@example.com'' [])"
  by (simp_all add: office_db_def client_of_def findById_def)

text \<open>
  C5 as stated fails where the client's own list of cases is not empty: the handler
  answers before any count, with a message that names no count. Here client 1 lists a
  case and one invoice refers to it, so that the first count that is not zero is that of
  the invoices; the message names no invoice and has no digit in it.
\<close>

theorem deleteClient_hard_counterexample:
  "findById client_id (clients office_db) 1 = Some (client_of 1 ''a@example.com'' [20])
   \<and> countDocuments (\<lambda>x. clientId x = 1) (invoices office_db) = 1
   \<and> deleteClient 5000 office_db (Oid 1) None =
        (Response 409 (Failure
           ''Cannot delete client with active cases. Please remove or reassign all cases first.''),
         office_db)
   \<and> \<not> list_ex is_digit
         ''Cannot delete client with active cases. Please remove or reassign all cases first.''"
  by (simp add: deleteClient_def office_db_def client_of_def findById_def
      countDocuments_def errorResponse_def is_digit_def sample_invoice_def)

text \<open>
  C5, amended. A hard delete of a client that exists answers 409 with a fixed message,
  which names cases and no count, when the client's own list of cases is not empty.
  Otherwise, when invoices refer to the client it answers 409 with a message that names
  invoices and their count, and when no invoice but appointments refer to it, 409 with a
  message that names appointments and their count. In all these answers the database is
  unchanged; so a client whose list of cases is not empty is never removed.
\<close>

theorem deleteClient_hard:
  assumes found: "findById client_id (clients d) i = Some c" and hard: "soft \<noteq> Some ''true''"
    and ni: "countDocuments (\<lambda>x. clientId x = i) (invoices d) = ni"
    and na: "countDocuments (\<lambda>x. appt_clientId x = i) (appointments d) = na"
  shows "(client_cases c \<noteq> [] \<longrightarrow> deleteClient now d (Oid i) soft =
            (Response 409 (Failure
               ''Cannot delete client with active cases. Please remove or reassign all cases first.''),
             d))
     \<and> (client_cases c = [] \<and> 0 < ni \<longrightarrow> deleteClient now d (Oid i) soft =
            (Response 409 (Failure (''Cannot delete client with '' @ String_nat ni @
               '' related invoices. Please remove all invoices first.'')), d))
     \<and> (client_cases c = [] \<and> ni = 0 \<and> 0 < na \<longrightarrow> deleteClient now d (Oid i) soft =
            (Response 409 (Failure (''Cannot delete client with '' @ String_nat na @
               '' related appointments. Please remove all appointments first.'')), d))"
  using found hard ni na
  by (simp add: deleteClient_def Let_def errorResponse_def successResponse_def
      case_matches_clientId_def countDocuments_def)

theorem deleteClient_hard_witness:
  "deleteClient 5000 office_db (Oid 1) None =
     (Response 409 (Failure
        ''Cannot delete client with active cases. Please remove or reassign all cases first.''),
      office_db)
   \<and> deleteClient 5000 office_db (Oid 7) None =
     (Response 409 (Failure
        ''Cannot delete client with 1 related invoices. Please remove all invoices first.''),
      office_db)
   \<and> deleteClient 5000 office_db (Oid 6) None =
     (Response 409 (Failure
        ''Cannot delete client with 1 related appointments. Please remove all appointments first.''),
      office_db)"
proof -
  have h: "None \<noteq> Some ''true''" by simp
  have v: "countDocuments (\<lambda>x. clientId x = 1) (invoices office_db) = 1"
      "countDocuments (\<lambda>x. clientId x = 7) (invoices office_db) = 1"
      "countDocuments (\<lambda>x. clientId x = 6) (invoices office_db) = 0"
    by (simp_all add: office_db_def sample_invoice_def countDocuments_def)
  have a: "countDocuments (\<lambda>x. appt_clientId x = 1) (appointments office_db) = 0"
      "countDocuments (\<lambda>x. appt_clientId x = 7) (appointments office_db) = 0"
      "countDocuments (\<lambda>x. appt_clientId x = 6) (appointments office_db) = 1"
    by (simp_all add: office_db_def sample_appointment_def countDocuments_def)
  note t1 = deleteClient_hard [OF office_clients(1) h v(1) a(1), of 5000]
    and t7 = deleteClient_hard [OF office_clients(2) h v(2) a(2), of 5000]
    and t6 = deleteClient_hard [OF office_clients(3) h v(3) a(3), of 5000]
  have r1: "deleteClient 5000 office_db (Oid 1) None =
     (Response 409 (Failure
        ''Cannot delete client with active cases. Please remove or reassign all cases first.''),
      office_db)" using t1 by (simp add: client_of_def)
  have r7: "deleteClient 5000 office_db (Oid 7) None =
     (Response 409 (Failure
        ''Cannot delete client with 1 related invoices. Please remove all invoices first.''),
      office_db)" using t7 by (simp add: client_of_def String_nat_1)
  have r6: "deleteClient 5000 office_db (Oid 6) None =
     (Response 409 (Failure
        ''Cannot delete client with 1 related appointments. Please remove all appointments first.''),
      office_db)" using t6 by (simp add: client_of_def String_nat_1)
  show ?thesis using r1 r7 r6 by simp
qed

text \<open>
  The count of the cases is zero whatever the database holds, so it stops no delete: a
  client with no case in its own list, no invoice and no appointment is removed.
\<close>

lemma deleteClient_cases_not_counted:
  assumes "findById client_id (clients d) i = Some c" and "soft \<noteq> Some ''true''"
    and "client_cases c = []"
    and "countDocuments (\<lambda>x. clientId x = i) (invoices d) = 0"
    and "countDocuments (\<lambda>x. appt_clientId x = i) (appointments d) = 0"
  shows "deleteClient now d (Oid i) soft =
     (Response 200 (Success ''Client deleted successfully'' None),
      d\<lparr>clients := deleteById client_id i (clients d)\<rparr>)"
  using assms
  by (simp add: deleteClient_def Let_def errorResponse_def successResponse_def
      case_matches_clientId_def countDocuments_def)

text \<open>
  C6 as stated fails on a client whose status is true: the save that stores the status
  also rewrites the client's \<^verbatim>\<open>updatedAt\<close>. Here client 7, last updated at 1000, is
  deactivated at 5000.
\<close>

theorem deleteClient_soft_counterexample:
  "findById client_id (clients office_db) 7 = Some (client_of 7 ''g@example.com'' [])
   \<and> updatedAt (client_of 7 ''g@example.com'' []) = 1000
   \<and> fst (deleteClient 5000 office_db (Oid 7) (Some ''true'')) =
       Response 200 (Success ''Client deactivated successfully'' None)
   \<and> findById client_id (clients (snd (deleteClient 5000 office_db (Oid 7) (Some ''true'')))) 7 =
       Some (client_of 7 ''g@example.com'' []\<lparr>client_status := False, updatedAt := 5000\<rparr>)"
  by (simp add: deleteClient_def office_db_def client_of_def findById_def successResponse_def)

text \<open>
  C6, amended. A soft delete of a client that exists answers 200 and leaves that client
  with its status false, with \<^verbatim>\<open>updatedAt\<close> at the time of the request when the status
  was true, and with its other fields as they were; it changes no other client and no
  other collection.
\<close>

theorem deleteClient_soft:
  assumes found: "findById client_id (clients d) i = Some c"
  shows "\<exists>d'. deleteClient now d (Oid i) (Some ''true'') =
            (Response 200 (Success ''Client deactivated successfully'' None), d')
     \<and> findById client_id (clients d') i =
         Some (c\<lparr>client_status := False,
                 updatedAt := (if client_status c then now else updatedAt c)\<rparr>)
     \<and> (\<forall>j. j \<noteq> i \<longrightarrow> findById client_id (clients d') j = findById client_id (clients d) j)
     \<and> length (clients d') = length (clients d)
     \<and> d' = d\<lparr>clients := clients d'\<rparr>"
proof -
  have k: "client_id c = i" using found by (rule findById_key)
  define f where "f = (\<lambda>x::client. x\<lparr>client_status := False,
      updatedAt := (if client_status x then now else updatedAt x)\<rparr>)"
  define d' where "d' = d\<lparr>clients := updateById client_id i f (clients d)\<rparr>"
  have r: "deleteClient now d (Oid i) (Some ''true'') =
      (Response 200 (Success ''Client deactivated successfully'' None), d')"
    using found by (simp add: deleteClient_def successResponse_def d'_def f_def)
  have a: "findById client_id (clients d') i = Some (f c)"
    unfolding d'_def using found k by (simp add: findById_updateById f_def)
  have b: "findById client_id (clients d') j = findById client_id (clients d) j" if "j \<noteq> i" for j
    unfolding d'_def using that by (simp add: findById_updateById_other f_def)
  have c: "length (clients d') = length (clients d)" "d' = d\<lparr>clients := clients d'\<rparr>"
    by (simp_all add: d'_def length_updateById)
  show ?thesis
    apply (rule exI[of _ d'])
    using r a b c by (simp add: f_def)
qed

theorem deleteClient_soft_witness:
  "findById client_id (clients office_db) 1 = Some (client_of 1 ''a@example.com'' [20])
   \<and> (7::nat) \<noteq> 1
   \<and> (\<exists>d'. deleteClient 5000 office_db (Oid 1) (Some ''true'') =
            (Response 200 (Success ''Client deactivated successfully'' None), d')
     \<and> findById client_id (clients d') 1 =
         Some (client_of 1 ''a@example.com'' [20]\<lparr>client_status := False, updatedAt := 5000\<rparr>)
     \<and> findById client_id (clients d') 7 = Some (client_of 7 ''g@example.com'' [])
     \<and> cases d' = cases office_db \<and> invoices d' = invoices office_db)"
proof -
  from deleteClient_soft [OF office_clients(1), of 5000] obtain d' where
    d: "deleteClient 5000 office_db (Oid 1) (Some ''true'') =
            (Response 200 (Success ''Client deactivated successfully'' None), d')"
      "findById client_id (clients d') 1 =
         Some (client_of 1 ''a@example.com'' [20]\<lparr>client_status := False,
           updatedAt := (if client_status (client_of 1 ''a@example.com'' [20]) then 5000
                         else updatedAt (client_of 1 ''a@example.com'' [20]))\<rparr>)"
      "\<forall>j. j \<noteq> 1 \<longrightarrow> findById client_id (clients d') j = findById client_id (clients office_db) j"
      "d' = office_db\<lparr>clients := clients d'\<rparr>"
    by blast
  from d(3) have "findById client_id (clients d') 7 = Some (client_of 7 ''g@example.com'' [])"
    using office_clients(2) by simp
  moreover from d(4) have "cases d' = cases office_db \<and> invoices d' = invoices office_db"
    by (metis db.select_convs(1) db.select_convs(4) db.surjective db.update_convs(3))
  moreover have "client_status (client_of 1 ''a@example.com'' [20])" by (simp add: client_of_def)
  ultimately show ?thesis using office_clients(1) d(1,2) by auto
qed

subsection \<open>Logging in\<close>

text \<open>
  C8. When the user found for the email has the role client and the password is
  verified, the handler looks up the client with the user's email, and when that
  client's status is false it answers 403 with the account-inactive message and issues
  no token.
\<close>

theorem login_inactive_client:
  assumes given: "e \<noteq> []" "pw \<noteq> []"
    and usr: "find (\<lambda>u. Some (user_email u) = Some e) (users d) = Some u"
    and rl: "role u = ''client''" and match: "comparePassword pw u"
    and cl: "find (\<lambda>c. email c = user_email u) (clients d) = Some c"
    and inactive: "\<not> client_status c"
  shows "login comparePassword sign d (Some e) (Some pw) =
     Response 403 (AuthMessage ''Your account is currently inactive. Please contact support.'')"
  using assms by (simp add: login_def falsy_string_def or_else_def Let_def)

theorem login_inactive_client_witness:
  "''a@example.com'' \<noteq> [] \<and> ''secret'' \<noteq> []
   \<and> find (\<lambda>u. Some (user_email u) = Some ''a@example.com'') (users closed_db) = Some client_user
   \<and> role client_user = ''client''
   \<and> (\<lambda>p u. password u = ''hash-of-'' @ p) ''secret'' client_user
   \<and> find (\<lambda>c. email c = user_email client_user) (clients closed_db)
        = Some (client_of 1 ''a@example.com'' []\<lparr>client_status := False\<rparr>)
   \<and> \<not> client_status (client_of 1 ''a@example.com'' []\<lparr>client_status := False\<rparr>)
   \<and> login (\<lambda>p u. password u = ''hash-of-'' @ p) (\<lambda>p. ''token'') closed_db
         (Some ''a@example.com'') (Some ''secret'') =
       Response 403 (AuthMessage ''Your account is currently inactive. Please contact support.'')"
proof -
  have g: "''a@example.com'' \<noteq> []" "''secret'' \<noteq> []" by simp_all
  have u: "find (\<lambda>u. Some (user_email u) = Some ''a@example.com'') (users closed_db) = Some client_user"
    by (simp add: closed_db_def client_user_def)
  have r: "role client_user = ''client''" by (simp add: client_user_def)
  have m: "(\<lambda>p u. password u = ''hash-of-'' @ p) ''secret'' client_user"
    by (simp add: client_user_def)
  have c: "find (\<lambda>c. email c = user_email client_user) (clients closed_db)
        = Some (client_of 1 ''a@example.com'' []\<lparr>client_status := False\<rparr>)"
    by (simp add: closed_db_def client_user_def client_of_def)
  have i: "\<not> client_status (client_of 1 ''a@example.com'' []\<lparr>client_status := False\<rparr>)"
    by simp
  from login_inactive_client [of "''a@example.com''" "''secret''" closed_db client_user
      "\<lambda>p u. password u = ''hash-of-'' @ p", OF g u r m c i]
  show ?thesis using g u r m c i by simp
qed

subsection \<open>Creating a case\<close>

lemma check_field_string:
  "is_string_or_absent v \<Longrightarrow>
   check_field (Inr errors) v key msg = Inr (errors @ (if is_blank v then [(key, msg)] else []))"
  by (cases v) (simp_all add: is_blank_def is_string_or_absent_def)

lemma validateCaseData_strings:
  assumes "list_all (\<lambda>(k, v). is_string_or_absent v) (required_fields data)"
  shows "\<exists>errors. validateCaseData data = Inr (if errors \<noteq> [] then Some errors else None)
     \<and> map fst errors = map fst (filter (\<lambda>(k, v). is_blank v) (required_fields data))"
proof -
  from assms have n: "is_string_or_absent (req_case_clientName data)"
    "is_string_or_absent (req_clientNo data)" "is_string_or_absent (req_caseType data)"
    "is_string_or_absent (req_court data)" "is_string_or_absent (req_petitioner data)"
    "is_string_or_absent (req_respondent data)"
    by (simp_all add: required_fields_def)
  define errors where "errors =
      (if is_blank (req_case_clientName data) then [(''clientName'', ''Client name is required'')] else [])
    @ (if is_blank (req_clientNo data) then [(''clientNo'', ''Client number is required'')] else [])
    @ (if is_blank (req_caseType data) then [(''caseType'', ''Case type is required'')] else [])
    @ (if is_blank (req_court data) then [(''court'', ''Court is required'')] else [])
    @ (if is_blank (req_petitioner data) then [(''petitioner'', ''Petitioner is required'')] else [])
    @ (if is_blank (req_respondent data) then [(''respondent'', ''Respondent is required'')] else [])"
  have v: "validateCaseData data = Inr (if errors \<noteq> [] then Some errors else None)"
    unfolding validateCaseData_def Let_def
    by (simp only: check_field_string [OF n(1)] check_field_string [OF n(2)]
        check_field_string [OF n(3)] check_field_string [OF n(4)] check_field_string [OF n(5)]
        check_field_string [OF n(6)] append_Nil append_assoc errors_def [symmetric])
       simp
  have k: "map fst errors = map fst (filter (\<lambda>(k, v). is_blank v) (required_fields data))"
    by (simp add: errors_def required_fields_def)
  from v k show ?thesis by blast
qed

lemma trim_examples:
  "trim (units ''  '') = []" "trim [0xA0] = []" "trim (units ''Asha'') \<noteq> []"
  "trim (units ''Civil'') \<noteq> []" "trim (units ''P'') \<noteq> []"
  by (simp_all add: trim_def is_space_def units_def)

lemma String_nat_0: "String_nat 0 = ''0''"
  by (subst String_nat.simps) (simp add: digit_char_def)

text \<open>
  C3 as stated fails on the third route that creates a case: \<^verbatim>\<open>POST /direct\<close> skips the
  validator and fills in what is missing. Here the client's number is absent, the court
  is blank and the respondent is null, and the request is answered with 201 and a new
  case.
\<close>

theorem createCase_missing_fields_counterexample:
  "list_ex (\<lambda>(k, v). is_blank v) (required_fields partial_req)
   \<and> statusCode (fst (createCaseDirect 22 0 office_db 3 partial_req)) = 201
   \<and> length (cases (snd (createCaseDirect 22 0 office_db 3 partial_req))) =
       length (cases office_db) + 1"
  by (simp add: required_fields_def partial_req_def is_blank_def trim_examples
      createCaseDirect_def or_default_def or_else_def case_saves_def office_db_def case_for_def
      successResponse_def String_nat_0 units_def Let_def)

text \<open>
  On \<^verbatim>\<open>POST /\<close> a field that is neither a string nor absent makes the validator throw,
  and the request is answered with 400 whatever else is missing. Here the client's name
  is blank and the client's number is a number.
\<close>

lemma createCase_non_string_field:
  "is_blank (req_case_clientName bad_req)
   \<and> createCase 22 0 office_db 3 bad_req =
       (Response 400 (Failure ''Error creating case''), office_db)"
  by (simp add: bad_req_def is_blank_def trim_examples createCase_def validateCaseData_def
      errorResponse_def)

text \<open>
  C3, amended. On \<^verbatim>\<open>POST /\<close> and on \<^verbatim>\<open>POST /simple\<close>, when each of the six required
  fields is absent (undefined or null) or a string, and at least one of them is absent
  or blank after trimming, the request is answered with 422 and an error map whose keys
  are exactly the missing fields, in the order of the validator, and the database is
  unchanged.
\<close>

theorem createCase_missing_fields:
  assumes strings: "list_all (\<lambda>(k, v). is_string_or_absent v) (required_fields body)"
    and missing: "list_ex (\<lambda>(k, v). is_blank v) (required_fields body)"
  shows "\<exists>errors. createCase newId now d caller body =
            (Response 422 (ValidationFailure ''Validation Error'' errors), d)
     \<and> createCaseSimple newId now d caller body =
            (Response 422 (ValidationFailure ''Validation Error'' errors), d)
     \<and> map fst errors = map fst (filter (\<lambda>(k, v). is_blank v) (required_fields body))"
proof -
  from validateCaseData_strings [OF strings] obtain errors where
    v: "validateCaseData body = Inr (if errors \<noteq> [] then Some errors else None)"
    and k: "map fst errors = map fst (filter (\<lambda>(k, v). is_blank v) (required_fields body))"
    by blast
  from missing have "filter (\<lambda>(k, v). is_blank v) (required_fields body) \<noteq> []"
    by (auto simp: filter_empty_conv list_ex_iff)
  with k have "errors \<noteq> []" by auto
  with v have "createCase newId now d caller body =
            (Response 422 (ValidationFailure ''Validation Error'' errors), d)"
    "createCaseSimple newId now d caller body =
            (Response 422 (ValidationFailure ''Validation Error'' errors), d)"
    by (simp_all add: createCase_def createCaseSimple_def validationErrorResponse_def)
  with k show ?thesis by blast
qed

theorem createCase_missing_fields_witness:
  "list_all (\<lambda>(k, v). is_string_or_absent v) (required_fields partial_req)
   \<and> list_ex (\<lambda>(k, v). is_blank v) (required_fields partial_req)
   \<and> (\<exists>errors. createCase 22 0 office_db 3 partial_req =
            (Response 422 (ValidationFailure ''Validation Error'' errors), office_db)
        \<and> createCaseSimple 22 0 office_db 3 partial_req =
            (Response 422 (ValidationFailure ''Validation Error'' errors), office_db)
        \<and> map fst errors = [''clientNo'', ''court'', ''respondent''])"
proof -
  have s: "list_all (\<lambda>(k, v). is_string_or_absent v) (required_fields partial_req)"
    by (simp add: required_fields_def partial_req_def is_string_or_absent_def)
  have m: "list_ex (\<lambda>(k, v). is_blank v) (required_fields partial_req)"
    by (simp add: required_fields_def partial_req_def is_blank_def)
  have f: "map fst (filter (\<lambda>(k, v). is_blank v) (required_fields partial_req)) =
      [''clientNo'', ''court'', ''respondent'']"
    by (simp add: required_fields_def partial_req_def is_blank_def trim_examples)
  from createCase_missing_fields [OF s m, of 22 0 office_db 3] f s m show ?thesis by simp
qed

end
